theory Spec2Isabelle
  imports Complex_Main "HOL-Library.Sublist"
begin

section \<open>JavaScript values used by the ensemble service\<close>

text \<open>
  A JavaScript \<open>number\<close> is modelled in exact arithmetic: a finite value is a real, and the
  three non-finite values that division can produce are constructors of their own. Rounding
  is not modelled, and zero is not signed (a zero divisor is taken to be \<open>+0\<close>, which is what
  the sums and quotients of the service produce from non-negative inputs).
\<close>

datatype number = Fin real | PInf | NInf | NaN

fun nadd :: "number \<Rightarrow> number \<Rightarrow> number" where
  "nadd (Fin a) (Fin b) = Fin (a + b)"
| "nadd NaN _ = NaN"
| "nadd _ NaN = NaN"
| "nadd PInf NInf = NaN"
| "nadd NInf PInf = NaN"
| "nadd PInf _ = PInf"
| "nadd _ PInf = PInf"
| "nadd NInf _ = NInf"
| "nadd _ NInf = NInf"

fun ndiv :: "number \<Rightarrow> number \<Rightarrow> number" where
  "ndiv (Fin a) (Fin b) =
     (if b \<noteq> 0 then Fin (a / b)
      else if a = 0 then NaN
      else if 0 < a then PInf else NInf)"
| "ndiv NaN _ = NaN"
| "ndiv _ NaN = NaN"
| "ndiv (Fin a) PInf = Fin 0"
| "ndiv (Fin a) NInf = Fin 0"
| "ndiv PInf (Fin b) = (if 0 \<le> b then PInf else NInf)"
| "ndiv NInf (Fin b) = (if 0 \<le> b then NInf else PInf)"
| "ndiv PInf PInf = NaN"
| "ndiv PInf NInf = NaN"
| "ndiv NInf PInf = NaN"
| "ndiv NInf NInf = NaN"

fun nmul :: "number \<Rightarrow> number \<Rightarrow> number" where
  "nmul (Fin a) (Fin b) = Fin (a * b)"
| "nmul NaN _ = NaN"
| "nmul _ NaN = NaN"
| "nmul (Fin a) PInf = (if a = 0 then NaN else if 0 < a then PInf else NInf)"
| "nmul (Fin a) NInf = (if a = 0 then NaN else if 0 < a then NInf else PInf)"
| "nmul PInf (Fin b) = (if b = 0 then NaN else if 0 < b then PInf else NInf)"
| "nmul NInf (Fin b) = (if b = 0 then NaN else if 0 < b then NInf else PInf)"
| "nmul PInf PInf = PInf"
| "nmul PInf NInf = NInf"
| "nmul NInf PInf = NInf"
| "nmul NInf NInf = PInf"

text \<open>\<open>xs.reduce((sum, x) => sum + x, 0)\<close> over numbers.\<close>

definition nsum :: "number list \<Rightarrow> number" where
  "nsum xs = foldl nadd (Fin 0) xs"

text \<open>
  The payload of a response is typed \<open>any\<close>; every analyzer of the service builds it as an
  object literal with distinct keys, so it is a list of fields holding JSON values. A field
  that is absent reads as \<open>undefined\<close>, which is \<open>None\<close> here.
\<close>

datatype json =
    JNull
  | JBool bool
  | JNum real
  | JStr string
  | JArr "json list"
  | JObj "(string \<times> json) list"

type_synonym object = "(string \<times> json) list"

definition getProp :: "object \<Rightarrow> string \<Rightarrow> json option" where
  "getProp obj key = map_of obj key"

fun truthy :: "json option \<Rightarrow> bool" where
  "truthy None = False"
| "truthy (Some JNull) = False"
| "truthy (Some (JBool b)) = b"
| "truthy (Some (JNum x)) = (x \<noteq> 0)"
| "truthy (Some (JStr s)) = (s \<noteq> [])"
| "truthy (Some (JArr xs)) = True"
| "truthy (Some (JObj fs)) = True"

text \<open>A thrown value: an \<open>Error\<close> with its message, or anything else.\<close>

datatype js_error = Error string | NonError

section \<open>The data model of the ensemble\<close>

record ModelResponse =
  source :: string
  confidence :: real
  data :: object
  processingTime :: real

record EnsembleResponse =
  finalResponse :: string
  modelContributions :: "ModelResponse list"
  consensusScore :: real
  totalProcessingTime :: real
  methodology :: string

section \<open>Weighting in the engine\<close>

text \<open>
  \<open>calculateModelWeights\<close> switches on the strategy string: \<open>"confidence"\<close> divides each
  confidence by the total, \<open>"performance"\<close> calls the function again with \<open>"confidence"\<close>,
  and \<open>"equal"\<close> shares its branch with \<open>default\<close>.
\<close>

function calculateModelWeights :: "ModelResponse list \<Rightarrow> string \<Rightarrow> number list" where
  "calculateModelWeights responses strategy =
     (if strategy = ''confidence'' then
        (let totalConfidence = foldl (\<lambda>sum r. sum + confidence r) 0 responses
         in map (\<lambda>r. ndiv (Fin (confidence r)) (Fin totalConfidence)) responses)
      else if strategy = ''performance'' then
        calculateModelWeights responses ''confidence''
      else
        (let equalWeight = ndiv (Fin 1) (Fin (real (length responses)))
         in replicate (length responses) equalWeight))"
  by pat_completeness auto
termination
  by (relation "measure (\<lambda>(rs, s). if s = ''performance'' then 1 else 0)") auto

declare calculateModelWeights.simps [simp del]

section \<open>The strategy table of the configuration module\<close>

record EnsembleStrategy =
  name :: string
  description :: string
  weightingFunction :: "ModelResponse list \<Rightarrow> number list"
  consensusThreshold :: real
  requireMinimumModels :: nat
  maxProcessingTime :: nat
  fallbackStrategy :: string

definition confidence_weightingFunction :: "ModelResponse list \<Rightarrow> number list" where
  "confidence_weightingFunction responses =
     (let totalConfidence = foldl (\<lambda>sum r. sum + confidence r) 0 responses
      in map (\<lambda>r. ndiv (Fin (confidence r)) (Fin totalConfidence)) responses)"

definition equal_weightingFunction :: "ModelResponse list \<Rightarrow> number list" where
  "equal_weightingFunction responses =
     (let equalWeight = ndiv (Fin 1) (Fin (real (length responses)))
      in replicate (length responses) equalWeight)"

definition performanceScore :: "ModelResponse \<Rightarrow> real" where
  "performanceScore r =
     (if source r = ''Gemini-2.0-Flash'' then 0.85
      else if source r = ''FinBERT'' then 0.78
      else if source r = ''CryptoBERT'' then 0.72
      else if source r = ''News-RoBERTa'' then 0.76
      else if source r = ''Technical-Analyzer'' then 0.7
      else 0.6)"

definition performance_weightingFunction :: "ModelResponse list \<Rightarrow> number list" where
  "performance_weightingFunction responses =
     (let performanceScores = map performanceScore responses;
          totalPerformance = foldl (\<lambda>sum score. sum + score) 0 performanceScores
      in map (\<lambda>score. ndiv (Fin score) (Fin totalPerformance)) performanceScores)"

definition adaptive_weightingFunction :: "ModelResponse list \<Rightarrow> number list" where
  "adaptive_weightingFunction responses =
     map (\<lambda>r. ndiv (Fin (confidence r))
                 (Fin (foldl (\<lambda>sum resp. sum + confidence resp) 0 responses)))
         responses"

definition fastResponse_weightingFunction :: "ModelResponse list \<Rightarrow> number list" where
  "fastResponse_weightingFunction responses =
     (let speedScores = map (\<lambda>r. ndiv (Fin 1) (Fin (processingTime r / 1000))) responses;
          totalSpeed = foldl (\<lambda>sum score. nadd sum score) (Fin 0) speedScores
      in map (\<lambda>score. ndiv score totalSpeed) speedScores)"

text \<open>
  In \<open>highAccuracy\<close> the average is taken inside the callback, so it is only evaluated
  on a list with at least one element and its divisor is never zero.
\<close>

definition highAccuracy_weightingFunction :: "ModelResponse list \<Rightarrow> number list" where
  "highAccuracy_weightingFunction responses =
     (let consensusBonus =
            map (\<lambda>r.
                  let avgConfidence =
                        foldl (\<lambda>sum resp. sum + confidence resp) 0 responses
                          / real (length responses);
                      consensusScore' = 1 - \<bar>confidence r - avgConfidence\<bar>
                  in confidence r * 0.7 + consensusScore' * 0.3)
                responses;
          total = foldl (\<lambda>sum score. sum + score) 0 consensusBonus
      in map (\<lambda>score. ndiv (Fin score) (Fin total)) consensusBonus)"

definition strategies_table :: "(string \<times> EnsembleStrategy) list" where
  "strategies_table =
     [(''confidence'',
        \<lparr>name = ''Confidence Weighting'',
         description = ''Models with higher confidence scores have proportionally more influence on the final response'',
         weightingFunction = confidence_weightingFunction,
         consensusThreshold = 0.7, requireMinimumModels = 2,
         maxProcessingTime = 45000, fallbackStrategy = ''equal''\<rparr>),
      (''equal'',
        \<lparr>name = ''Equal Weighting'',
         description = ''All models contribute equally regardless of confidence levels'',
         weightingFunction = equal_weightingFunction,
         consensusThreshold = 0.6, requireMinimumModels = 2,
         maxProcessingTime = 30000, fallbackStrategy = ''performance''\<rparr>),
      (''performance'',
        \<lparr>name = ''Performance Weighting'',
         description = ''Models are weighted based on historical accuracy and performance metrics'',
         weightingFunction = performance_weightingFunction,
         consensusThreshold = 0.75, requireMinimumModels = 3,
         maxProcessingTime = 60000, fallbackStrategy = ''confidence''\<rparr>),
      (''adaptive'',
        \<lparr>name = ''Adaptive Weighting'',
         description = ''Dynamically adjusts model weights based on query type and context'',
         weightingFunction = adaptive_weightingFunction,
         consensusThreshold = 0.8, requireMinimumModels = 3,
         maxProcessingTime = 50000, fallbackStrategy = ''confidence''\<rparr>),
      (''fastResponse'',
        \<lparr>name = ''Fast Response'',
         description = ''Optimizes for speed, using fewer models with shorter timeouts'',
         weightingFunction = fastResponse_weightingFunction,
         consensusThreshold = 0.6, requireMinimumModels = 2,
         maxProcessingTime = 15000, fallbackStrategy = ''equal''\<rparr>),
      (''highAccuracy'',
        \<lparr>name = ''High Accuracy'',
         description = ''Uses all available models with emphasis on consensus and validation'',
         weightingFunction = highAccuracy_weightingFunction,
         consensusThreshold = 0.85, requireMinimumModels = 4,
         maxProcessingTime = 90000, fallbackStrategy = ''performance''\<rparr>)]"

text \<open>
  The property the specification asks of a weight vector: its entries, added up as the
  service adds numbers, give a finite value within \<open>1e-6\<close> of 1.
\<close>

definition sums_to_one :: "number list \<Rightarrow> bool" where
  "sums_to_one ws = (case nsum ws of Fin s \<Rightarrow> \<bar>s - 1\<bar> \<le> 1 / 10 ^ 6 | PInf \<Rightarrow> False | NInf \<Rightarrow> False | NaN \<Rightarrow> False)"

section \<open>Strings\<close>

definition nl :: string where
  "nl = [CHR 0x0A]"

definition dq :: string where
  "dq = [CHR 0x22]"

text \<open>
  The closing line of a synthesis starts with the bytes the source file holds in front of
  \<open>Remember\<close> (a light-bulb emoji whose encoding was converted twice).
\<close>

definition bulb :: string where
  "bulb = [CHR 0xC3, CHR 0xB0, CHR 0xC5, CHR 0xB8, CHR 0xE2, CHR 0x80, CHR 0x99, CHR 0xC2, CHR 0xA1]"

text \<open>\<open>Array.prototype.join\<close> on strings.\<close>

fun join :: "string \<Rightarrow> string list \<Rightarrow> string" where
  "join sep [] = []"
| "join sep [x] = x"
| "join sep (x # y # ys) = x @ sep @ join sep (y # ys)"

text \<open>\<open>String.prototype.includes\<close>: the word occurs at some position of the text.\<close>

fun str_includes :: "string \<Rightarrow> string \<Rightarrow> bool" where
  "str_includes [] word = (word = [])"
| "str_includes (c # cs) word = (prefix word (c # cs) \<or> str_includes cs word)"

text \<open>
  \<open>String.prototype.toLowerCase\<close> on the ASCII letters; the case mapping of characters
  outside ASCII is not modelled (their bytes are kept).
\<close>

definition lowerChar :: "char \<Rightarrow> char" where
  "lowerChar c =
     (let n = (of_char c :: nat)
      in if 65 \<le> n \<and> n \<le> 90 then char_of (n + 32) else c)"

definition toLowerCase :: "string \<Rightarrow> string" where
  "toLowerCase s = map lowerChar s"

text \<open>The decimal digits of a natural number, as a template literal prints a length.\<close>

function string_of_nat :: "nat \<Rightarrow> string" where
  "string_of_nat n =
     (if n < 10 then [char_of (48 + n)]
      else string_of_nat (n div 10) @ [char_of (48 + n mod 10)])"
  by pat_completeness auto
termination
  by (relation "measure (\<lambda>n. n)") auto

declare string_of_nat.simps [simp del]

text \<open>
  The library functions of the JavaScript runtime whose output is text that no property
  here depends on: \<open>JSON.stringify(v, null, 2)\<close>, \<open>Number.prototype.toFixed\<close> and the
  conversion to a string of a JSON value that is a number, an array or an object.
\<close>

record runtime =
  JSON_stringify :: "json \<Rightarrow> string"
  toFixed :: "number \<Rightarrow> nat \<Rightarrow> string"
  String_of :: "json \<Rightarrow> string"

text \<open>A value interpolated into a template literal.\<close>

fun interpolate :: "runtime \<Rightarrow> json option \<Rightarrow> string" where
  "interpolate rt None = ''undefined''"
| "interpolate rt (Some JNull) = ''null''"
| "interpolate rt (Some (JBool b)) = (if b then ''true'' else ''false'')"
| "interpolate rt (Some (JStr s)) = s"
| "interpolate rt (Some v) = String_of rt v"

section \<open>Consensus, methodology and synthesis\<close>

definition calculateConsensusScore :: "ModelResponse list \<Rightarrow> real" where
  "calculateConsensusScore responses =
     (if length responses < 2 then 0.5
      else
        let avgConfidence =
              foldl (\<lambda>sum r. sum + confidence r) 0 responses / real (length responses);
            confidenceVariance =
              foldl (\<lambda>sum r. sum + (confidence r - avgConfidence) ^ 2) 0 responses
                / real (length responses)
        in max 0.1 (min 0.95 (1 - confidenceVariance)))"

definition explainMethodology :: "ModelResponse list \<Rightarrow> string \<Rightarrow> string" where
  "explainMethodology responses strategy =
     (let modelList = join '', '' (map source responses)
      in ''Used '' @ string_of_nat (length responses) @ '' AI models ('' @ modelList
           @ '') with '' @ strategy
           @ '' weighting strategy. Consensus score indicates model agreement level.'')"

text \<open>
  The response that the fallback synthesis presents as primary:
  \<open>highConfidenceResponses[0] || responses[0]\<close>, where \<open>highConfidenceResponses\<close> keeps the
  responses whose confidence exceeds 0.7. The list is not empty where it is used.
\<close>

fun primaryResponse :: "ModelResponse list \<Rightarrow> ModelResponse option" where
  "primaryResponse [] = None"
| "primaryResponse (r0 # rest) =
     (let highConfidenceResponses = filter (\<lambda>r. 0.7 < confidence r) (r0 # rest)
      in case highConfidenceResponses of
           r # _ \<Rightarrow> Some r
         | [] \<Rightarrow> Some r0)"

text \<open>\<open>primaryResponse.data.analysis || primaryResponse.data\<close>.\<close>

definition analysis_or_data :: "object \<Rightarrow> json" where
  "analysis_or_data d =
     (case getProp d ''analysis'' of
        Some v \<Rightarrow> if truthy (Some v) then v else JObj d
      | None \<Rightarrow> JObj d)"

definition fallbackSynthesis :: "runtime \<Rightarrow> ModelResponse list \<Rightarrow> string \<Rightarrow> string" where
  "fallbackSynthesis rt responses query =
     (case primaryResponse responses of
        None \<Rightarrow> ''Unable to provide analysis at this time.''
      | Some primary \<Rightarrow>
          let synthesis1 = ''Based on multi-model AI analysis:'' @ nl @ nl;
              synthesis2 = synthesis1 @ ''Primary Analysis ('' @ source primary @ ''):'' @ nl;
              synthesis3 = synthesis2
                 @ JSON_stringify rt (analysis_or_data (data primary)) @ nl @ nl;
              synthesis4 =
                (if 1 < length responses then
                   foldl (\<lambda>synthesis r.
                            synthesis @ ''- '' @ source r @ '': ''
                              @ interpolate rt (getProp (data r) ''type'') @ nl)
                     (synthesis3 @ ''Supporting insights from ''
                        @ string_of_nat (length responses - 1)
                        @ '' additional models:'' @ nl)
                     (drop 1 responses)
                 else synthesis3);
              synthesis5 = synthesis4 @ nl @ ''Confidence: ''
                 @ toFixed rt (Fin (confidence primary * 100)) 1 @ ''%'';
              synthesis6 = synthesis5 @ nl @ ''Models consulted: ''
                 @ join '', '' (map source responses)
          in synthesis6 @ nl @ nl @ bulb
               @ '' Remember: This is a learning tool to help you understand trading better!'')"

text \<open>
  The prompt of the synthesis call. \<open>weights\<close> has the length of \<open>responses\<close>, so
  \<open>weights[i]\<close> is always in range.
\<close>

definition synthesisPrompt :: "runtime \<Rightarrow> ModelResponse list \<Rightarrow> number list \<Rightarrow> string \<Rightarrow> string" where
  "synthesisPrompt rt responses weights originalQuery =
     nl @ ''    As Tradeable's AI coordinator, synthesize these AI model analyses into one comprehensive response:'' @ nl
     @ nl
     @ ''    Original Query: '' @ dq @ originalQuery @ dq @ nl
     @ nl
     @ ''    Model Analyses:'' @ nl
     @ ''    ''
     @ join nl
         (map (\<lambda>(i, r).
                 nl @ ''    '' @ string_of_nat (i + 1) @ ''. '' @ source r
                 @ '' (Confidence: '' @ toFixed rt (Fin (confidence r * 100)) 1
                 @ ''%, Weight: '' @ toFixed rt (nmul (weights ! i) (Fin 100)) 1 @ ''%):'' @ nl
                 @ ''    '' @ JSON_stringify rt (JObj (data r)) @ nl
                 @ ''    '')
              (enumerate 0 responses))
     @ nl
     @ nl
     @ ''    Requirements:'' @ nl
     @ ''    - Synthesize insights from all models'' @ nl
     @ ''    - Highlight areas of consensus'' @ nl
     @ ''    - Note conflicting viewpoints and explain why'' @ nl
     @ ''    - Provide balanced, actionable advice'' @ nl
     @ ''    - Maintain educational tone'' @ nl
     @ ''    - Include confidence indicators'' @ nl
     @ ''    - End with: '' @ dq @ bulb
     @ '' Remember: This is a learning tool to help you understand trading better!'' @ dq @ nl
     @ nl
     @ ''    Create a unified response that leverages the strengths of each model.'' @ nl
     @ ''    ''"

text \<open>
  \<open>callGeminiAPI\<close> is the remote call: it maps the prompt to the text it resolves to, or to
  the error it rejects with. A rejection is caught and replaced by the fallback synthesis.
\<close>

definition synthesizeResponses ::
  "runtime \<Rightarrow> (string \<Rightarrow> js_error + string) \<Rightarrow> ModelResponse list \<Rightarrow> string \<Rightarrow> string \<Rightarrow> string" where
  "synthesizeResponses rt callGeminiAPI responses originalQuery strategy =
     (if length responses = 0 then
        ''I apologize, but I couldn't generate a comprehensive analysis due to technical difficulties. Please try again.''
      else
        let weights = calculateModelWeights responses strategy;
            prompt = synthesisPrompt rt responses weights originalQuery
        in case callGeminiAPI prompt of
             Inr text \<Rightarrow> text
           | Inl error \<Rightarrow> fallbackSynthesis rt responses originalQuery)"

section \<open>The orchestrator\<close>

record options =
  useGemini :: "bool option"
  useFinancialBert :: "bool option"
  useCryptoBert :: "bool option"
  useNewsAnalysis :: "bool option"
  weightingStrategy :: "string option"

text \<open>
  Each analyzer is an asynchronous call on the query and the market context; what the
  orchestrator sees of it is how its promise settles: fulfilled with a response (\<open>Inr\<close>) or
  rejected with the thrown error (\<open>Inl\<close>).
\<close>

record analyzers =
  getGeminiAnalysis :: "js_error + ModelResponse"
  getFinancialSentimentAnalysis :: "js_error + ModelResponse"
  getCryptoSentimentAnalysis :: "js_error + ModelResponse"
  getNewsAnalysis :: "js_error + ModelResponse"
  getTechnicalAnalysis :: "js_error + ModelResponse"

text \<open>The two readings of \<open>Date.now()\<close> of one call: on entry, and where the result is built.\<close>

record clock =
  startTime :: real
  endTime :: real

text \<open>A parameter destructured with a default takes the default when it is \<open>undefined\<close>.\<close>

definition with_default :: "'a \<Rightarrow> 'a option \<Rightarrow> 'a" where
  "with_default d v = (case v of None \<Rightarrow> d | Some x \<Rightarrow> x)"

text \<open>The promises pushed to \<open>modelPromises\<close>, in the order of the source.\<close>

definition modelPromises :: "options \<Rightarrow> analyzers \<Rightarrow> (js_error + ModelResponse) list" where
  "modelPromises opts an =
     (if with_default True (useGemini opts) then [getGeminiAnalysis an] else [])
     @ (if with_default True (useFinancialBert opts) then [getFinancialSentimentAnalysis an] else [])
     @ (if with_default True (useCryptoBert opts) then [getCryptoSentimentAnalysis an] else [])
     @ (if with_default True (useNewsAnalysis opts) then [getNewsAnalysis an] else [])
     @ [getTechnicalAnalysis an]"

text \<open>
  The \<open>forEach\<close> over the settled results: a fulfilled result is pushed to \<open>modelResponses\<close>
  and sets \<open>hasValidResponse\<close>; a rejected one is only logged.
\<close>

definition collect ::
  "(js_error + ModelResponse) list \<Rightarrow> ModelResponse list \<times> bool" where
  "collect results =
     foldl (\<lambda>(modelResponses, hasValidResponse) result.
              case result of
                Inr v \<Rightarrow> (modelResponses @ [v], True)
              | Inl reason \<Rightarrow> (modelResponses, hasValidResponse))
           ([], False) results"

text \<open>
  The body of the \<open>try\<close> block. It returns \<open>modelResponses\<close> as it stands when the block is
  left, together with the value returned (\<open>Inr\<close>) or the error thrown (\<open>Inl\<close>).
  An API key that is \<open>undefined\<close> or empty is falsy.
\<close>

definition ensembleBody ::
  "runtime \<Rightarrow> string option \<Rightarrow> (string \<Rightarrow> js_error + string) \<Rightarrow> clock \<Rightarrow> analyzers
     \<Rightarrow> string \<Rightarrow> options \<Rightarrow> ModelResponse list \<times> (js_error + EnsembleResponse)" where
  "ensembleBody rt apiKey callGeminiAPI clk an query opts =
     (if apiKey = None \<or> apiKey = Some [] then
        ([], Inl (Error ''HUGGINGFACE_API_KEY is not configured''))
      else
        let strategy = with_default ''confidence'' (weightingStrategy opts);
            results = modelPromises opts an;
            (modelResponses, hasValidResponse) = collect results
        in if \<not> hasValidResponse then
             (modelResponses,
              Inr \<lparr>finalResponse =
                     ''I apologize, but I couldn't generate a comprehensive analysis due to technical difficulties. Please try again.'',
                   modelContributions = [],
                   consensusScore = 0,
                   totalProcessingTime = endTime clk - startTime clk,
                   methodology = ''No models were able to generate a response''\<rparr>)
           else
             let finalResponse' =
                   synthesizeResponses rt callGeminiAPI modelResponses query strategy;
                 totalTime = endTime clk - startTime clk;
                 consensusScore' = calculateConsensusScore modelResponses;
                 methodology' = explainMethodology modelResponses strategy
             in (modelResponses,
                 Inr \<lparr>finalResponse = finalResponse',
                      modelContributions = modelResponses,
                      consensusScore = consensusScore',
                      totalProcessingTime = totalTime,
                      methodology = methodology'\<rparr>))"

text \<open>
  \<open>generateEnsembleResponse\<close>: the \<open>try\<close> block with its \<open>catch\<close>, which turns any error
  thrown in the block into a response. The result is how the returned promise settles.
\<close>

definition generateEnsembleResponse ::
  "runtime \<Rightarrow> string option \<Rightarrow> (string \<Rightarrow> js_error + string) \<Rightarrow> clock \<Rightarrow> analyzers
     \<Rightarrow> string \<Rightarrow> options \<Rightarrow> js_error + EnsembleResponse" where
  "generateEnsembleResponse rt apiKey callGeminiAPI clk an query opts =
     (case ensembleBody rt apiKey callGeminiAPI clk an query opts of
        (modelResponses, Inr response) \<Rightarrow> Inr response
      | (modelResponses, Inl error) \<Rightarrow>
          Inr \<lparr>finalResponse =
                 ''Analysis failed: ''
                 @ (case error of Error message \<Rightarrow> message | NonError \<Rightarrow> ''Unknown error'')
                 @ ''. Please try again.'',
               modelContributions = modelResponses,
               consensusScore = 0,
               totalProcessingTime = endTime clk - startTime clk,
               methodology = ''Analysis failed due to technical error''\<rparr>)"

section \<open>The local fallbacks of the analyzers\<close>

definition cryptoPositive :: "string list" where
  "cryptoPositive = [''moon'', ''hodl'', ''bullish'', ''pump'', ''rally'', ''breakout'']"

definition cryptoNegative :: "string list" where
  "cryptoNegative = [''dump'', ''crash'', ''bearish'', ''rekt'', ''fud'', ''dip'']"

text \<open>
  The keyword fallback of the crypto-sentiment analyzer. The market context is passed and
  not read; \<open>now\<close> is the reading of \<open>Date.now()\<close> where the response is built.
\<close>

definition getCryptoKeywordAnalysis :: "string \<Rightarrow> json \<Rightarrow> real \<Rightarrow> real \<Rightarrow> ModelResponse" where
  "getCryptoKeywordAnalysis query context startTime' now =
     (let lowerQuery = toLowerCase query;
          positiveMatches = length (filter (\<lambda>word. str_includes lowerQuery word) cryptoPositive);
          negativeMatches = length (filter (\<lambda>word. str_includes lowerQuery word) cryptoNegative);
          (sentiment, confidence') =
            (if negativeMatches < positiveMatches then
               (''positive'', min 0.8 (0.5 + real positiveMatches * 0.1))
             else if positiveMatches < negativeMatches then
               (''negative'', min 0.8 (0.5 + real negativeMatches * 0.1))
             else (''neutral'', 0.5))
      in \<lparr>source = ''Crypto-Keywords'',
          confidence = confidence',
          data = [(''sentiment'', JStr sentiment),
                  (''positiveMatches'', JNum (real positiveMatches)),
                  (''negativeMatches'', JNum (real negativeMatches)),
                  (''type'', JStr ''crypto_keyword_analysis'')],
          processingTime = now - startTime'\<rparr>)"

section \<open>The configuration manager\<close>

record RateLimit =
  requestsPerMinute :: nat
  burstLimit :: nat

record AIModelConfig =
  name :: string
  endpoint :: "string option"
  enabled :: bool
  weight :: real
  timeout :: nat
  retries :: nat
  fallbackEnabled :: bool
  rateLimit :: RateLimit
  costPerRequest :: real
  strengths :: "string list"
  weaknesses :: "string list"
  optimalUseCases :: "string list"
  minimumConfidenceThreshold :: real

record GlobalSettings =
  maxConcurrentRequests :: nat
  globalTimeout :: nat
  enableFallbacks :: bool
  logPerformanceMetrics :: bool
  cacheResponses :: bool
  cacheTTL :: nat

record QualityThresholds =
  minimumConsensus :: real
  maximumResponseTime :: nat
  minimumModelCount :: nat
  confidenceThreshold :: real

record CostManagement =
  dailyBudgetLimit :: real
  costPerRequestLimit :: real
  enableCostOptimization :: bool
  preferLowerCostModels :: bool

record AIEnsembleConfig =
  models :: "(string \<times> AIModelConfig) list"
  strategies :: "(string \<times> EnsembleStrategy) list"
  defaultStrategy :: string
  globalSettings :: GlobalSettings
  qualityThresholds :: QualityThresholds
  costManagement :: CostManagement

definition models_table :: "(string \<times> AIModelConfig) list" where
  "models_table =
     [
      (''gemini'',
        \<lparr>name = ''Gemini-2.0-Flash'',
         endpoint = None,
         enabled = True,
         weight = 1.0,
         timeout = 30000,
         retries = 2,
         fallbackEnabled = True,
         rateLimit = \<lparr>requestsPerMinute = 60, burstLimit = 10\<rparr>,
         costPerRequest = 0.02,
         strengths = [''comprehensive_reasoning'', ''context_understanding'', ''educational_content'', ''market_interpretation'', ''risk_assessment''],
         weaknesses = [''processing_speed'', ''specialized_terminology'', ''real_time_data''],
         optimalUseCases = [''complex_analysis'', ''educational_queries'', ''market_interpretation'', ''risk_assessment'', ''strategic_advice''],
         minimumConfidenceThreshold = 0.7\<rparr>),
      (''finbert'',
        \<lparr>name = ''FinBERT'',
         endpoint = Some ''ProsusAI/finbert'',
         enabled = True,
         weight = 0.8,
         timeout = 15000,
         retries = 3,
         fallbackEnabled = True,
         rateLimit = \<lparr>requestsPerMinute = 100, burstLimit = 20\<rparr>,
         costPerRequest = 0.001,
         strengths = [''financial_sentiment'', ''market_terminology'', ''news_analysis'', ''risk_indicators'', ''economic_context''],
         weaknesses = [''general_conversation'', ''technical_analysis'', ''crypto_specific_terms''],
         optimalUseCases = [''sentiment_analysis'', ''news_interpretation'', ''financial_document_analysis'', ''market_mood_assessment''],
         minimumConfidenceThreshold = 0.6\<rparr>),
      (''cryptobert'',
        \<lparr>name = ''CryptoBERT'',
         endpoint = Some ''ElKulako/cryptobert'',
         enabled = True,
         weight = 0.7,
         timeout = 12000,
         retries = 3,
         fallbackEnabled = True,
         rateLimit = \<lparr>requestsPerMinute = 80, burstLimit = 15\<rparr>,
         costPerRequest = 0.0015,
         strengths = [''crypto_terminology'', ''community_sentiment'', ''defi_concepts'', ''blockchain_terminology'', ''trading_slang'', ''social_media_analysis''],
         weaknesses = [''formal_financial_analysis'', ''traditional_markets'', ''regulatory_content''],
         optimalUseCases = [''crypto_sentiment_analysis'', ''social_media_monitoring'', ''community_feedback'', ''meme_coin_analysis'', ''defi_protocol_sentiment''],
         minimumConfidenceThreshold = 0.65\<rparr>),
      (''newsRoberta'',
        \<lparr>name = ''News-RoBERTa'',
         endpoint = Some ''cardiffnlp/twitter-roberta-base-sentiment-latest'',
         enabled = True,
         weight = 0.6,
         timeout = 10000,
         retries = 3,
         fallbackEnabled = True,
         rateLimit = \<lparr>requestsPerMinute = 120, burstLimit = 25\<rparr>,
         costPerRequest = 0.0008,
         strengths = [''news_classification'', ''social_media_sentiment'', ''trending_topic_analysis'', ''real_time_sentiment'', ''short_text_analysis''],
         weaknesses = [''long_form_content'', ''technical_analysis'', ''financial_terminology''],
         optimalUseCases = [''breaking_news_analysis'', ''social_media_monitoring'', ''trend_detection'', ''public_sentiment_tracking''],
         minimumConfidenceThreshold = 0.6\<rparr>),
      (''technicalAnalyzer'',
        \<lparr>name = ''Technical-Analyzer'',
         endpoint = Some ''custom/technical-patterns'',
         enabled = True,
         weight = 0.7,
         timeout = 8000,
         retries = 2,
         fallbackEnabled = True,
         rateLimit = \<lparr>requestsPerMinute = 200, burstLimit = 50\<rparr>,
         costPerRequest = 0.0005,
         strengths = [''price_pattern_recognition'', ''volume_analysis'', ''trend_identification'', ''support_resistance'', ''indicator_interpretation''],
         weaknesses = [''fundamental_analysis'', ''news_interpretation'', ''sentiment_analysis''],
         optimalUseCases = [''chart_analysis'', ''trading_signals'', ''pattern_recognition'', ''technical_indicators''],
         minimumConfidenceThreshold = 0.65\<rparr>)]"

definition AI_ENSEMBLE_CONFIG :: AIEnsembleConfig where
  "AI_ENSEMBLE_CONFIG =
     \<lparr>models = models_table,
      strategies = strategies_table,
      defaultStrategy = ''confidence'',
      globalSettings =
        \<lparr>maxConcurrentRequests = 5, globalTimeout = 60000, enableFallbacks = True,
         logPerformanceMetrics = True, cacheResponses = True, cacheTTL = 300000\<rparr>,
      qualityThresholds =
        \<lparr>minimumConsensus = 0.6, maximumResponseTime = 45000, minimumModelCount = 2,
         confidenceThreshold = 0.5\<rparr>,
      costManagement =
        \<lparr>dailyBudgetLimit = 50.0, costPerRequestLimit = 0.25,
         enableCostOptimization = True, preferLowerCostModels = False\<rparr>\<rparr>"

text \<open>
  The fields of \<open>queryAnalysis\<close> that are read. The three flags are tested for truth, the
  two levels are compared with \<open>"high"\<close>.
\<close>

record QueryAnalysis =
  isTechnicalQuery :: bool
  isSentimentQuery :: bool
  isEducationalQuery :: bool
  complexity :: string
  urgency :: string

record OptimalConfiguration =
  enabledModels :: "string list"
  strategy :: string
  timeout :: nat
  expectedCost :: real

text \<open>\<open>this.config.models[key]\<close>, which is \<open>undefined\<close> for a key the table does not have.\<close>

definition lookupModel :: "AIEnsembleConfig \<Rightarrow> string \<Rightarrow> AIModelConfig option" where
  "lookupModel config key = map_of (models config) key"

definition getOptimalConfiguration :: "AIEnsembleConfig \<Rightarrow> QueryAnalysis \<Rightarrow> OptimalConfiguration" where
  "getOptimalConfiguration config queryAnalysis =
     (let enabledModels0 = [''gemini''];
          strategy0 = defaultStrategy config;
          timeout0 = globalTimeout (globalSettings config);
          enabledModels1 =
            (if isSentimentQuery queryAnalysis
             then enabledModels0 @ [''finbert'', ''cryptobert'', ''newsRoberta'']
             else enabledModels0);
          enabledModels2 =
            (if isTechnicalQuery queryAnalysis
             then enabledModels1 @ [''technicalAnalyzer'', ''finbert'']
             else enabledModels1);
          (enabledModels3, strategy1) =
            (if isEducationalQuery queryAnalysis
             then (enabledModels2 @ [''finbert''], ''confidence'')
             else (enabledModels2, strategy0));
          (strategy2, timeout2, enabledModels4) =
            (if urgency queryAnalysis = ''high''
             then (''fastResponse'', 15000, take 2 enabledModels3)
             else if complexity queryAnalysis = ''high''
             then (''highAccuracy'', 60000, enabledModels3)
             else (strategy1, timeout0, enabledModels3));
          expectedCost' =
            foldl (\<lambda>sum modelKey.
                     sum + (case lookupModel config modelKey of
                              Some model \<Rightarrow> costPerRequest model
                            | None \<Rightarrow> 0))
                  0 enabledModels4
      in \<lparr>enabledModels =
            filter (\<lambda>key. case lookupModel config key of
                             Some model \<Rightarrow> enabled model
                           | None \<Rightarrow> False)
                   enabledModels4,
          strategy = strategy2,
          timeout = timeout2,
          expectedCost = expectedCost'\<rparr>)"

section \<open>The rule-based fallback of the technical analyzer\<close>

text \<open>
  The fields of the primary asset that the fallback reads; each may be absent. A name that
  is absent or empty, and a change or volume that is absent or zero, take the default of
  the \<open>||\<close> in the source.
\<close>

record TechnicalData =
  name :: "string option"
  priceChange24h :: "real option"
  volume24h :: "real option"

definition number_or :: "real option \<Rightarrow> real \<Rightarrow> real" where
  "number_or v d = (case v of None \<Rightarrow> d | Some x \<Rightarrow> if x = 0 then d else x)"

definition string_or :: "string option \<Rightarrow> string \<Rightarrow> string" where
  "string_or v d = (case v of None \<Rightarrow> d | Some s \<Rightarrow> if s = [] then d else s)"

definition getRuleBasedTechnicalAnalysis :: "TechnicalData \<Rightarrow> string \<Rightarrow> real \<Rightarrow> real \<Rightarrow> ModelResponse" where
  "getRuleBasedTechnicalAnalysis technicalData query startTime' now =
     (let priceChange = number_or (priceChange24h technicalData) 0;
          volume = number_or (volume24h technicalData) 0;
          analysis1 = ''Technical Analysis for '' @ string_or (name technicalData) ''Asset'' @ '':'' @ nl;
          analysis2 =
            (if 5 < priceChange then analysis1 @ ''- Strong bullish momentum detected'' @ nl
             else if 2 < priceChange then analysis1 @ ''- Moderate upward movement'' @ nl
             else if priceChange < - 5 then analysis1 @ ''- Strong bearish pressure'' @ nl
             else if priceChange < - 2 then analysis1 @ ''- Moderate downward pressure'' @ nl
             else analysis1 @ ''- Sideways price action'' @ nl);
          analysis3 =
            (if 100000000 < volume
             then analysis2 @ ''- High trading volume indicates strong interest'' @ nl
             else analysis2 @ ''- Normal trading volume'' @ nl)
      in \<lparr>source = ''Rule-Based-Technical'',
          confidence = 0.6,
          data = [(''analysis'', JStr analysis3),
                  (''type'', JStr ''rule_based_technical''),
                  (''metrics'', JObj [(''priceChange'', JNum priceChange), (''volume'', JNum volume)])],
          processingTime = now - startTime'\<rparr>)"

section \<open>Notions used to state the properties\<close>

text \<open>The responses of the promises that were fulfilled, in the order of the promises.\<close>

fun fulfilled :: "(js_error + 'a) list \<Rightarrow> 'a list" where
  "fulfilled [] = []"
| "fulfilled (Inr v # results) = v # fulfilled results"
| "fulfilled (Inl reason # results) = fulfilled results"

text \<open>Mean and (population) variance of a list of reals, as the specification words them.\<close>

definition mean :: "real list \<Rightarrow> real" where
  "mean xs = sum_list xs / real (length xs)"

definition variance :: "real list \<Rightarrow> real" where
  "variance xs = (\<Sum>x\<leftarrow>xs. (x - mean xs) ^ 2) / real (length xs)"

text \<open>The fixed apology of the degraded response.\<close>

definition apology :: string where
  "apology = ''I apologize, but I couldn't generate a comprehensive analysis due to technical difficulties. Please try again.''"

text \<open>The opening of a fallback synthesis, which names the primary response, and its closing.\<close>

definition primaryHeader :: "ModelResponse \<Rightarrow> string" where
  "primaryHeader p =
     ''Based on multi-model AI analysis:'' @ nl @ nl @ ''Primary Analysis ('' @ source p @ ''):'' @ nl"

definition closingLine :: string where
  "closingLine = nl @ nl @ bulb @ '' Remember: This is a learning tool to help you understand trading better!''"

text \<open>The text of the rule-based analysis: its header and its volume line.\<close>

definition analysisText :: "ModelResponse \<Rightarrow> json option" where
  "analysisText r = getProp (data r) ''analysis''"

definition technicalHeader :: "TechnicalData \<Rightarrow> string" where
  "technicalHeader d = ''Technical Analysis for '' @ string_or (name d) ''Asset'' @ '':'' @ nl"

definition volumeLine :: "TechnicalData \<Rightarrow> string" where
  "volumeLine d =
     (if 100000000 < number_or (volume24h d) 0
      then ''- High trading volume indicates strong interest'' @ nl
      else ''- Normal trading volume'' @ nl)"

text \<open>
  The enabled flag and the cost per request of a model key in a configuration, and the
  keys that the rule table of \<open>getOptimalConfiguration\<close> selects before it filters them.
\<close>

definition modelEnabled :: "AIEnsembleConfig \<Rightarrow> string \<Rightarrow> bool" where
  "modelEnabled config key =
     (case lookupModel config key of Some model \<Rightarrow> enabled model | None \<Rightarrow> False)"

definition modelCost :: "AIEnsembleConfig \<Rightarrow> string \<Rightarrow> real" where
  "modelCost config key =
     (case lookupModel config key of Some model \<Rightarrow> costPerRequest model | None \<Rightarrow> 0)"

definition selectedModels :: "QueryAnalysis \<Rightarrow> string list" where
  "selectedModels qa =
     (let chosen = [''gemini'']
          @ (if isSentimentQuery qa then [''finbert'', ''cryptobert'', ''newsRoberta''] else [])
          @ (if isTechnicalQuery qa then [''technicalAnalyzer'', ''finbert''] else [])
          @ (if isEducationalQuery qa then [''finbert''] else [])
      in if urgency qa = ''high'' then take 2 chosen else chosen)"

text \<open>
  A number is finite when it is neither \<open>NaN\<close> nor an infinity. The score that
  \<open>fastResponse\<close> gives a response with a non-zero processing time, and the score that
  \<open>highAccuracy\<close> gives a response within a list, are written with the mean above.
\<close>

fun is_finite :: "number \<Rightarrow> bool" where
  "is_finite (Fin x) = True"
| "is_finite PInf = False"
| "is_finite NInf = False"
| "is_finite NaN = False"

definition speedScore :: "ModelResponse \<Rightarrow> real" where
  "speedScore r = 1 / (processingTime r / 1000)"

definition accuracyScore :: "ModelResponse list \<Rightarrow> ModelResponse \<Rightarrow> real" where
  "accuracyScore rs r =
     confidence r * 0.7 + (1 - \<bar>confidence r - mean (map confidence rs)\<bar>) * 0.3"

text \<open>
  The lists on which a strategy has a non-zero divisor: for the engine by the strategy
  string it is called with, for the strategy table by the key of the entry.
\<close>

definition engine_divisor_nonzero :: "string \<Rightarrow> ModelResponse list \<Rightarrow> bool" where
  "engine_divisor_nonzero name' rs =
     (if name' = ''confidence'' \<or> name' = ''performance''
      then sum_list (map confidence rs) \<noteq> 0
      else True)"

definition table_divisor_nonzero :: "string \<Rightarrow> ModelResponse list \<Rightarrow> bool" where
  "table_divisor_nonzero key rs =
     (if key = ''confidence'' \<or> key = ''adaptive'' then sum_list (map confidence rs) \<noteq> 0
      else if key = ''fastResponse''
        then list_all (\<lambda>r. processingTime r \<noteq> 0) rs \<and> sum_list (map speedScore rs) \<noteq> 0
      else if key = ''highAccuracy'' then sum_list (map (accuracyScore rs) rs) \<noteq> 0
      else True)"

section \<open>Example inputs\<close>

definition ex_runtime :: runtime where
  "ex_runtime =
     \<lparr>JSON_stringify = (\<lambda>v. ''{}''),
      toFixed = (\<lambda>x d. ''0.0''),
      String_of = (\<lambda>v. ''[object Object]'')\<rparr>"

definition ex_clock :: clock where
  "ex_clock = \<lparr>startTime = 1000, endTime = 1250\<rparr>"

definition ex_options :: options where
  "ex_options =
     \<lparr>useGemini = None, useFinancialBert = None, useCryptoBert = None,
      useNewsAnalysis = None, weightingStrategy = None\<rparr>"

definition ex_gemini :: ModelResponse where
  "ex_gemini =
     \<lparr>source = ''Gemini-2.0-Flash'', confidence = 0.85,
      data = [(''analysis'', JStr ''Bitcoin is consolidating.''),
              (''type'', JStr ''comprehensive_analysis'')],
      processingTime = 1200\<rparr>"

definition ex_finbert :: ModelResponse where
  "ex_finbert =
     \<lparr>source = ''FinBERT'', confidence = 0.75,
      data = [(''querySentiment'', JArr []), (''contextSentiments'', JArr []),
              (''type'', JStr ''financial_sentiment'')],
      processingTime = 800\<rparr>"

definition ex_cryptobert :: ModelResponse where
  "ex_cryptobert =
     \<lparr>source = ''CryptoBERT'', confidence = 0.9,
      data = [(''sentiment'', JArr []), (''type'', JStr ''crypto_sentiment'')],
      processingTime = 600\<rparr>"

text \<open>The response of the technical analyzer without market data, built within a millisecond.\<close>

definition ex_technical :: ModelResponse where
  "ex_technical =
     \<lparr>source = ''Technical-Analysis'', confidence = 0.3,
      data = [(''analysis'', JStr ''Insufficient technical data for analysis''),
              (''type'', JStr ''technical_analysis'')],
      processingTime = 0\<rparr>"

definition ex_zero_confidence :: ModelResponse where
  "ex_zero_confidence =
     \<lparr>source = ''FinBERT'', confidence = 0,
      data = [(''type'', JStr ''financial_sentiment'')],
      processingTime = 800\<rparr>"

definition ex_unavailable :: js_error where
  "ex_unavailable = Error ''service unavailable''"

definition ex_all_rejected :: analyzers where
  "ex_all_rejected =
     \<lparr>getGeminiAnalysis = Inl ex_unavailable,
      getFinancialSentimentAnalysis = Inl ex_unavailable,
      getCryptoSentimentAnalysis = Inl ex_unavailable,
      getNewsAnalysis = Inl ex_unavailable,
      getTechnicalAnalysis = Inl ex_unavailable\<rparr>"

definition ex_partial :: analyzers where
  "ex_partial =
     \<lparr>getGeminiAnalysis = Inl ex_unavailable,
      getFinancialSentimentAnalysis = Inr ex_finbert,
      getCryptoSentimentAnalysis = Inr ex_cryptobert,
      getNewsAnalysis = Inl ex_unavailable,
      getTechnicalAnalysis = Inr ex_technical\<rparr>"

definition ex_only_technical :: analyzers where
  "ex_only_technical =
     \<lparr>getGeminiAnalysis = Inl ex_unavailable,
      getFinancialSentimentAnalysis = Inl ex_unavailable,
      getCryptoSentimentAnalysis = Inl ex_unavailable,
      getNewsAnalysis = Inl ex_unavailable,
      getTechnicalAnalysis = Inr ex_technical\<rparr>"

definition ex_gemini_down :: "string \<Rightarrow> js_error + string" where
  "ex_gemini_down prompt = Inl ex_unavailable"

definition ex_gemini_up :: "string \<Rightarrow> js_error + string" where
  "ex_gemini_up prompt = Inr ''Bitcoin sentiment is mixed.''"

definition ex_coin_up :: TechnicalData where
  "ex_coin_up = \<lparr>name = Some ''Bitcoin'', priceChange24h = Some 7.5, volume24h = Some 250000000\<rparr>"

definition ex_coin_flat :: TechnicalData where
  "ex_coin_flat = \<lparr>name = None, priceChange24h = Some (- 1), volume24h = None\<rparr>"

definition ex_query_analysis :: QueryAnalysis where
  "ex_query_analysis =
     \<lparr>isTechnicalQuery = True, isSentimentQuery = True, isEducationalQuery = False,
      complexity = ''high'', urgency = ''normal''\<rparr>"

text \<open>
  The static configuration with FinBERT switched off, as the manager holds it when it is
  built with such a configuration, and the analysis of a purely educational query.
\<close>

definition ex_config_finbert_disabled :: AIEnsembleConfig where
  "ex_config_finbert_disabled =
     AI_ENSEMBLE_CONFIG
       \<lparr>models :=
          map (\<lambda>(key, model).
                 if key = ''finbert'' then (key, model\<lparr>enabled := False\<rparr>) else (key, model))
              (models AI_ENSEMBLE_CONFIG)\<rparr>"

definition ex_educational_query :: QueryAnalysis where
  "ex_educational_query =
     \<lparr>isTechnicalQuery = False, isSentimentQuery = False, isEducationalQuery = True,
      complexity = ''medium'', urgency = ''normal''\<rparr>"

section \<open>Sums and normalised weights\<close>

lemma foldl_plus_sum_list:
  "foldl (\<lambda>sum x. sum + f x) (a::real) xs = a + sum_list (map f xs)"
  by (induction xs arbitrary: a) simp_all

lemma foldl_plus_sum_list_id:
  "foldl (\<lambda>sum x. sum + x) (a::real) xs = a + sum_list xs"
  by (induction xs arbitrary: a) simp_all

lemma foldl_nadd_Fin:
  "foldl nadd (Fin a) (map (\<lambda>x. Fin (f x)) xs) = Fin (a + sum_list (map f xs))"
  by (induction xs arbitrary: a) simp_all

lemma nsum_Fin: "nsum (map (\<lambda>x. Fin (f x)) xs) = Fin (sum_list (map f xs))"
  by (simp add: nsum_def foldl_nadd_Fin)

lemma sum_list_divide: "sum_list (map (\<lambda>x. f x / (t::real)) xs) = sum_list (map f xs) / t"
  by (induction xs) (simp_all add: add_divide_distrib)

lemma normalised_sums_to_one:
  assumes "sum_list (map f xs) \<noteq> 0"
  shows "sums_to_one (map (\<lambda>x. ndiv (Fin (f x)) (Fin (sum_list (map f xs)))) xs)"
proof -
  have "map (\<lambda>x. ndiv (Fin (f x)) (Fin (sum_list (map f xs)))) xs
        = map (\<lambda>x. Fin (f x / sum_list (map f xs))) xs"
    using assms by simp
  then show ?thesis
    using assms by (simp add: sums_to_one_def nsum_Fin sum_list_divide)
qed

lemma sum_list_pos_mem:
  assumes "\<forall>x\<in>set xs. 0 \<le> f x" and "\<exists>x\<in>set xs. 0 < f x"
  shows "0 < sum_list (map f xs :: real list)"
  using assms
proof (induction xs)
  case Nil
  then show ?case by simp
next
  case (Cons a xs)
  have nn: "0 \<le> sum_list (map f xs)"
    using Cons.prems(1) by (intro sum_list_nonneg) auto
  show ?case
  proof (cases "0 < f a")
    case True
    then show ?thesis using nn by simp
  next
    case False
    then have "\<exists>x\<in>set xs. 0 < f x" using Cons.prems(2) by auto
    moreover have "\<forall>x\<in>set xs. 0 \<le> f x" using Cons.prems(1) by simp
    ultimately have "0 < sum_list (map f xs)" using Cons.IH by blast
    moreover have "0 \<le> f a" using Cons.prems(1) by simp
    ultimately show ?thesis by simp
  qed
qed

lemma sum_list_le_length:
  assumes "\<forall>x\<in>set xs. f x \<le> (1::real)"
  shows "sum_list (map f xs) \<le> real (length xs)"
  using assms by (induction xs) auto

lemma nadd_not_finite:
  "\<not> is_finite a \<or> \<not> is_finite b \<Longrightarrow> \<not> is_finite (nadd a b)"
  by (cases a; cases b) auto

lemma foldl_nadd_not_finite_acc: "\<not> is_finite a \<Longrightarrow> \<not> is_finite (foldl nadd a xs)"
proof (induction xs arbitrary: a)
  case Nil
  then show ?case by simp
next
  case (Cons x xs)
  have "\<not> is_finite (nadd a x)" using Cons.prems nadd_not_finite by blast
  then show ?case using Cons.IH by simp
qed

lemma foldl_nadd_not_finite_mem:
  "x \<in> set xs \<Longrightarrow> \<not> is_finite x \<Longrightarrow> \<not> is_finite (foldl nadd a xs)"
proof (induction xs arbitrary: a)
  case Nil
  then show ?case by simp
next
  case (Cons y ys)
  show ?case
  proof (cases "x = y")
    case True
    then have "\<not> is_finite (nadd a y)" using Cons.prems(2) nadd_not_finite by blast
    then show ?thesis using foldl_nadd_not_finite_acc by simp
  next
    case False
    then have "x \<in> set ys" using Cons.prems(1) by simp
    then show ?thesis using Cons.IH Cons.prems(2) by simp
  qed
qed

lemma not_finite_not_sums:
  assumes "x \<in> set ws" and "\<not> is_finite x"
  shows "\<not> sums_to_one ws"
proof -
  have "\<not> is_finite (nsum ws)"
    using foldl_nadd_not_finite_mem [OF assms] by (simp add: nsum_def)
  then show ?thesis by (cases "nsum ws") (simp_all add: sums_to_one_def)
qed

lemma ndiv_zero_not_finite: "\<not> is_finite (ndiv (Fin a) (Fin 0))"
  by simp

lemma normalised_iff:
  assumes "xs \<noteq> []"
  shows "sums_to_one (map (\<lambda>x. ndiv (Fin (f x)) (Fin (sum_list (map f xs)))) xs)
         \<longleftrightarrow> sum_list (map f xs) \<noteq> 0"
proof (cases "sum_list (map f xs) = 0")
  case True
  obtain x where x: "x \<in> set xs" using assms by (cases xs) auto
  have "ndiv (Fin (f x)) (Fin 0) \<in> set (map (\<lambda>x. ndiv (Fin (f x)) (Fin 0)) xs)"
    using x by (simp only: set_map) blast
  then have "\<not> sums_to_one (map (\<lambda>x. ndiv (Fin (f x)) (Fin 0)) xs)"
    using not_finite_not_sums ndiv_zero_not_finite by blast
  then show ?thesis using True by simp
next
  case False
  then show ?thesis using normalised_sums_to_one [of f xs] by simp
qed

lemma confidence_form:
  "confidence_weightingFunction rs
   = map (\<lambda>r. ndiv (Fin (confidence r)) (Fin (sum_list (map confidence rs)))) rs"
  by (simp add: confidence_weightingFunction_def foldl_plus_sum_list Let_def del: ndiv.simps)

lemma confidence_iff:
  "rs \<noteq> [] \<Longrightarrow>
   sums_to_one (confidence_weightingFunction rs) \<longleftrightarrow> sum_list (map confidence rs) \<noteq> 0"
  unfolding confidence_form by (rule normalised_iff)

lemma engine_confidence:
  "calculateModelWeights rs ''confidence'' = confidence_weightingFunction rs"
  by (simp add: calculateModelWeights.simps confidence_weightingFunction_def)

lemma engine_performance:
  "calculateModelWeights rs ''performance'' = confidence_weightingFunction rs"
  by (subst calculateModelWeights.simps) (simp add: engine_confidence)

lemma engine_other:
  "s \<noteq> ''confidence'' \<Longrightarrow> s \<noteq> ''performance'' \<Longrightarrow>
   calculateModelWeights rs s = equal_weightingFunction rs"
  by (simp add: calculateModelWeights.simps equal_weightingFunction_def)

lemma equal_sums:
  assumes "rs \<noteq> []"
  shows "sums_to_one (equal_weightingFunction rs)"
proof -
  have n: "real (length rs) \<noteq> 0" using assms by simp
  have "equal_weightingFunction rs = map (\<lambda>r. Fin ((\<lambda>_. 1 / real (length rs)) r)) rs"
    using n by (simp add: equal_weightingFunction_def map_replicate_const)
  then have "nsum (equal_weightingFunction rs)
             = Fin (sum_list (map (\<lambda>_. 1 / real (length rs)) rs))"
    by (simp only: nsum_Fin)
  then show ?thesis using n
    by (simp add: sums_to_one_def sum_list_replicate map_replicate_const)
qed

lemma adaptive_eq: "adaptive_weightingFunction rs = confidence_weightingFunction rs"
  by (simp add: adaptive_weightingFunction_def confidence_weightingFunction_def Let_def)

lemma performanceScore_pos: "0 < performanceScore r"
  by (simp add: performanceScore_def)

lemma performance_sums:
  assumes "rs \<noteq> []"
  shows "sums_to_one (performance_weightingFunction rs)"
proof -
  obtain r where "r \<in> set rs" using assms by (cases rs) auto
  then have "\<exists>r\<in>set rs. 0 < performanceScore r" using performanceScore_pos by blast
  moreover have "\<forall>r\<in>set rs. 0 \<le> performanceScore r"
    using performanceScore_pos by (simp add: less_imp_le)
  ultimately have "0 < sum_list (map performanceScore rs)"
    using sum_list_pos_mem by blast
  then show ?thesis
    using normalised_sums_to_one [of performanceScore rs]
    by (simp add: performance_weightingFunction_def foldl_plus_sum_list_id comp_def)
qed

lemma fastResponse_iff:
  assumes "rs \<noteq> []"
  shows "sums_to_one (fastResponse_weightingFunction rs)
         \<longleftrightarrow> list_all (\<lambda>r. processingTime r \<noteq> 0) rs \<and> sum_list (map speedScore rs) \<noteq> 0"
proof (cases "list_all (\<lambda>r. processingTime r \<noteq> 0) rs")
  case True
  then have nz: "\<forall>r\<in>set rs. processingTime r \<noteq> 0" by (simp add: list_all_iff)
  have sp: "map (\<lambda>r. ndiv (Fin 1) (Fin (processingTime r / 1000))) rs
            = map (\<lambda>r. Fin (speedScore r)) rs"
    using nz by (auto simp: speedScore_def)
  have "fastResponse_weightingFunction rs
        = map (\<lambda>r. ndiv (Fin (speedScore r)) (Fin (sum_list (map speedScore rs)))) rs"
    unfolding fastResponse_weightingFunction_def sp
    by (simp add: foldl_nadd_Fin Let_def comp_def del: ndiv.simps)
  then show ?thesis
    using normalised_iff [OF assms, of speedScore] True by simp
next
  case False
  then obtain r0 where r0: "r0 \<in> set rs" "processingTime r0 = 0"
    by (auto simp: list_all_iff)
  define speedScores where
    "speedScores = map (\<lambda>r. ndiv (Fin 1) (Fin (processingTime r / 1000))) rs"
  define totalSpeed where "totalSpeed = foldl nadd (Fin 0) speedScores"
  have s0: "PInf \<in> set speedScores"
  proof -
    have "ndiv (Fin 1) (Fin (processingTime r0 / 1000)) \<in> set speedScores"
      unfolding speedScores_def using r0(1) by (simp only: set_map) blast
    then show ?thesis using r0(2) by simp
  qed
  then have t: "\<not> is_finite totalSpeed"
    unfolding totalSpeed_def using foldl_nadd_not_finite_mem [of PInf speedScores] by simp
  have w: "\<not> is_finite (ndiv PInf totalSpeed)"
    using t by (cases totalSpeed) simp_all
  have "ndiv PInf totalSpeed \<in> set (map (\<lambda>score. ndiv score totalSpeed) speedScores)"
    using s0 by (simp only: set_map) blast
  moreover have "fastResponse_weightingFunction rs
                 = map (\<lambda>score. ndiv score totalSpeed) speedScores"
    by (simp add: fastResponse_weightingFunction_def Let_def speedScores_def totalSpeed_def)
  ultimately have "\<not> sums_to_one (fastResponse_weightingFunction rs)"
    using not_finite_not_sums w by metis
  then show ?thesis using False by simp
qed

lemma fastResponse_positive_times:
  assumes "rs \<noteq> []" and "\<forall>r\<in>set rs. 0 < processingTime r"
  shows "list_all (\<lambda>r. processingTime r \<noteq> 0) rs \<and> sum_list (map speedScore rs) \<noteq> 0"
proof -
  obtain r where "r \<in> set rs" using assms(1) by (cases rs) auto
  then have "\<exists>r\<in>set rs. 0 < speedScore r" using assms(2) by (auto simp: speedScore_def)
  moreover have "\<forall>r\<in>set rs. 0 \<le> speedScore r"
    using assms(2) by (simp add: speedScore_def less_imp_le)
  ultimately have "0 < sum_list (map speedScore rs)"
    using sum_list_pos_mem [of rs speedScore] by blast
  moreover have "list_all (\<lambda>r. processingTime r \<noteq> 0) rs"
    using assms(2) by (auto simp: list_all_iff)
  ultimately show ?thesis by simp
qed

lemma highAccuracy_form:
  "highAccuracy_weightingFunction rs
   = map (\<lambda>r. ndiv (Fin (accuracyScore rs r)) (Fin (sum_list (map (accuracyScore rs) rs)))) rs"
proof -
  let ?b = "\<lambda>r. confidence r * 0.7
                 + (1 - \<bar>confidence r - sum_list (map confidence rs) / real (length rs)\<bar>) * 0.3"
  have "highAccuracy_weightingFunction rs
        = map (\<lambda>r. ndiv (Fin (?b r)) (Fin (sum_list (map ?b rs)))) rs"
    by (simp add: highAccuracy_weightingFunction_def Let_def foldl_plus_sum_list
          foldl_plus_sum_list_id comp_def del: ndiv.simps)
  moreover have "accuracyScore rs = ?b"
    by (simp add: fun_eq_iff accuracyScore_def mean_def)
  ultimately show ?thesis by (simp del: ndiv.simps)
qed

lemma highAccuracy_iff:
  "rs \<noteq> [] \<Longrightarrow>
   sums_to_one (highAccuracy_weightingFunction rs)
   \<longleftrightarrow> sum_list (map (accuracyScore rs) rs) \<noteq> 0"
  unfolding highAccuracy_form by (rule normalised_iff)

lemma highAccuracy_unit_range:
  assumes "rs \<noteq> []" and "\<forall>r\<in>set rs. 0 \<le> confidence r \<and> confidence r \<le> 1"
  shows "sum_list (map (accuracyScore rs) rs) \<noteq> 0"
proof -
  define avg where "avg = mean (map confidence rs)"
  have len: "0 < real (length rs)" using assms(1) by simp
  have "0 \<le> sum_list (map confidence rs)"
    using assms(2) by (intro sum_list_nonneg) auto
  then have avg0: "0 \<le> avg" using len by (simp add: avg_def mean_def)
  have "sum_list (map confidence rs) \<le> real (length rs)"
    using assms(2) by (intro sum_list_le_length) auto
  then have avg1: "avg \<le> 1" using len by (simp add: avg_def mean_def)
  have low: "confidence r * 0.7 \<le> accuracyScore rs r" if "r \<in> set rs" for r
  proof -
    have "0 \<le> confidence r" "confidence r \<le> 1" using assms(2) that by auto
    then have "\<bar>confidence r - avg\<bar> \<le> 1" using avg0 avg1 by (simp add: abs_le_iff)
    then show ?thesis by (simp add: accuracyScore_def avg_def)
  qed
  have nonneg: "\<forall>r\<in>set rs. 0 \<le> accuracyScore rs r"
  proof
    fix r assume r: "r \<in> set rs"
    have "0 \<le> confidence r * 0.7" using assms(2) r by simp
    then show "0 \<le> accuracyScore rs r" using low [OF r] by linarith
  qed
  have "\<exists>r\<in>set rs. 0 < accuracyScore rs r"
  proof (cases "\<exists>r\<in>set rs. confidence r \<noteq> 0")
    case True
    then obtain r0 where r0: "r0 \<in> set rs" "confidence r0 \<noteq> 0" by blast
    then have "0 < confidence r0 * 0.7" using assms(2) by force
    then have "0 < accuracyScore rs r0" using low [OF r0(1)] by linarith
    then show ?thesis using r0(1) by blast
  next
    case False
    then have z: "\<forall>r\<in>set rs. confidence r = 0" by blast
    then have "sum_list (map confidence rs) = 0" by (induction rs) auto
    then have a: "avg = 0" by (simp add: avg_def mean_def)
    obtain r where r: "r \<in> set rs" using assms(1) by (cases rs) auto
    then have "accuracyScore rs r = 0.3" using z a by (simp add: accuracyScore_def avg_def)
    then show ?thesis using r by force
  qed
  then have "0 < sum_list (map (accuracyScore rs) rs)"
    using nonneg sum_list_pos_mem [of rs "accuracyScore rs"] by blast
  then show ?thesis by simp
qed

lemma length_weights:
  "length (confidence_weightingFunction rs) = length rs"
  "length (equal_weightingFunction rs) = length rs"
  "length (performance_weightingFunction rs) = length rs"
  "length (adaptive_weightingFunction rs) = length rs"
  "length (fastResponse_weightingFunction rs) = length rs"
  "length (highAccuracy_weightingFunction rs) = length rs"
  by (simp_all add: confidence_weightingFunction_def equal_weightingFunction_def
        performance_weightingFunction_def adaptive_weightingFunction_def
        fastResponse_weightingFunction_def highAccuracy_weightingFunction_def Let_def)

lemma engine_weights:
  assumes "rs \<noteq> []"
  shows "length (calculateModelWeights rs s) = length rs
         \<and> (sums_to_one (calculateModelWeights rs s) \<longleftrightarrow> engine_divisor_nonzero s rs)"
proof (cases "s = ''confidence'' \<or> s = ''performance''")
  case True
  then have "calculateModelWeights rs s = confidence_weightingFunction rs"
    using engine_confidence engine_performance by auto
  then show ?thesis
    using True confidence_iff [OF assms]
    by (simp add: engine_divisor_nonzero_def length_weights)
next
  case False
  then have "calculateModelWeights rs s = equal_weightingFunction rs"
    using engine_other by auto
  then show ?thesis
    using False equal_sums [OF assms]
    by (simp add: engine_divisor_nonzero_def length_weights)
qed

text \<open>
  Claim C3, as the code has it. For every non-empty list of responses, every strategy
  returns a weight vector of the length of the input, and whether its entries sum to 1 (in
  exact arithmetic, hence within \<open>1e-6\<close>) is decided by its divisor alone. \<open>equal\<close> (in the
  engine, also as the default, and in the table) and the table's \<open>performance\<close> always sum
  to 1. \<open>confidence\<close> (engine and table), the engine's \<open>performance\<close> and \<open>adaptive\<close> sum to 1
  exactly when the total of the confidences is not zero. \<open>fastResponse\<close> sums to 1 exactly
  when no processing time is zero and the total of the speed scores is not zero, which
  holds when all processing times are positive. \<open>highAccuracy\<close> sums to 1 exactly when the
  total of its scores is not zero, which holds when all confidences lie in \<open>[0, 1]\<close>.
\<close>

theorem weights_normalised:
  assumes "responses \<noteq> []"
  shows "(\<forall>strategy.
            length (calculateModelWeights responses strategy) = length responses
            \<and> (sums_to_one (calculateModelWeights responses strategy)
                 \<longleftrightarrow> engine_divisor_nonzero strategy responses))
         \<and> (\<forall>(key, s)\<in>set strategies_table.
            length (weightingFunction s responses) = length responses
            \<and> (sums_to_one (weightingFunction s responses)
                 \<longleftrightarrow> table_divisor_nonzero key responses))
         \<and> map fst strategies_table =
            [''confidence'', ''equal'', ''performance'', ''adaptive'', ''fastResponse'', ''highAccuracy'']
         \<and> ((\<forall>r\<in>set responses. 0 < processingTime r)
               \<longrightarrow> table_divisor_nonzero ''fastResponse'' responses)
         \<and> ((\<forall>r\<in>set responses. 0 \<le> confidence r \<and> confidence r \<le> 1)
               \<longrightarrow> table_divisor_nonzero ''highAccuracy'' responses)"
proof -
  have engine: "\<forall>strategy.
            length (calculateModelWeights responses strategy) = length responses
            \<and> (sums_to_one (calculateModelWeights responses strategy)
                 \<longleftrightarrow> engine_divisor_nonzero strategy responses)"
    using engine_weights [OF assms] by blast
  have c: "sums_to_one (confidence_weightingFunction responses)
           \<longleftrightarrow> table_divisor_nonzero ''confidence'' responses"
    using confidence_iff [OF assms] by (simp add: table_divisor_nonzero_def)
  have e: "sums_to_one (equal_weightingFunction responses)
           \<longleftrightarrow> table_divisor_nonzero ''equal'' responses"
    using equal_sums [OF assms] by (simp add: table_divisor_nonzero_def)
  have p: "sums_to_one (performance_weightingFunction responses)
           \<longleftrightarrow> table_divisor_nonzero ''performance'' responses"
    using performance_sums [OF assms] by (simp add: table_divisor_nonzero_def)
  have a: "sums_to_one (adaptive_weightingFunction responses)
           \<longleftrightarrow> table_divisor_nonzero ''adaptive'' responses"
    using confidence_iff [OF assms] by (simp add: table_divisor_nonzero_def adaptive_eq)
  have f: "sums_to_one (fastResponse_weightingFunction responses)
           \<longleftrightarrow> table_divisor_nonzero ''fastResponse'' responses"
    using fastResponse_iff [OF assms] by (simp add: table_divisor_nonzero_def)
  have h: "sums_to_one (highAccuracy_weightingFunction responses)
           \<longleftrightarrow> table_divisor_nonzero ''highAccuracy'' responses"
    using highAccuracy_iff [OF assms] by (simp add: table_divisor_nonzero_def)
  have table: "\<forall>(key, s)\<in>set strategies_table.
            length (weightingFunction s responses) = length responses
            \<and> (sums_to_one (weightingFunction s responses)
                 \<longleftrightarrow> table_divisor_nonzero key responses)"
    using c e p a f h by (simp add: strategies_table_def length_weights)
  have names: "map fst strategies_table =
            [''confidence'', ''equal'', ''performance'', ''adaptive'', ''fastResponse'', ''highAccuracy'']"
    by (simp add: strategies_table_def)
  have fast: "(\<forall>r\<in>set responses. 0 < processingTime r)
               \<longrightarrow> table_divisor_nonzero ''fastResponse'' responses"
    using fastResponse_positive_times [OF assms] by (simp add: table_divisor_nonzero_def)
  have high: "(\<forall>r\<in>set responses. 0 \<le> confidence r \<and> confidence r \<le> 1)
               \<longrightarrow> table_divisor_nonzero ''highAccuracy'' responses"
    using highAccuracy_unit_range [OF assms] by (simp add: table_divisor_nonzero_def)
  show ?thesis using engine table names fast high by blast
qed

text \<open>
  The theorem at three lists. On the FinBERT, CryptoBERT and technical answers, the last
  of which has processing time 0, the engine's vectors sum to 1. On a single answer of
  confidence 0, \<open>equal\<close>, the table's \<open>performance\<close> and \<open>highAccuracy\<close> sum to 1. On the
  Gemini and FinBERT answers, whose processing times are positive, \<open>fastResponse\<close> and
  \<open>adaptive\<close> sum to 1.
\<close>

theorem weights_normalised_witness:
  "sums_to_one (calculateModelWeights [ex_finbert, ex_cryptobert, ex_technical] ''performance'')
   \<and> sums_to_one (calculateModelWeights [ex_finbert, ex_cryptobert, ex_technical] ''equal'')
   \<and> length (calculateModelWeights [ex_finbert, ex_cryptobert, ex_technical] ''confidence'') = 3
   \<and> sums_to_one (equal_weightingFunction [ex_zero_confidence])
   \<and> sums_to_one (performance_weightingFunction [ex_zero_confidence])
   \<and> sums_to_one (highAccuracy_weightingFunction [ex_zero_confidence])
   \<and> sums_to_one (fastResponse_weightingFunction [ex_gemini, ex_finbert])
   \<and> sums_to_one (adaptive_weightingFunction [ex_gemini, ex_finbert])"
proof -
  have n3: "[ex_finbert, ex_cryptobert, ex_technical] \<noteq> []" by simp
  have n1: "[ex_zero_confidence] \<noteq> []" by simp
  have n2: "[ex_gemini, ex_finbert] \<noteq> []" by simp
  have d3: "engine_divisor_nonzero ''performance'' [ex_finbert, ex_cryptobert, ex_technical]"
    by (simp add: engine_divisor_nonzero_def ex_finbert_def ex_cryptobert_def ex_technical_def)
  have d3e: "engine_divisor_nonzero ''equal'' [ex_finbert, ex_cryptobert, ex_technical]"
    by (simp add: engine_divisor_nonzero_def)
  have r1: "\<forall>r\<in>set [ex_zero_confidence]. 0 \<le> confidence r \<and> confidence r \<le> 1"
    by (simp add: ex_zero_confidence_def)
  have t1: "table_divisor_nonzero ''equal'' [ex_zero_confidence]"
    "table_divisor_nonzero ''performance'' [ex_zero_confidence]"
    by (simp_all add: table_divisor_nonzero_def)
  have p2: "\<forall>r\<in>set [ex_gemini, ex_finbert]. 0 < processingTime r"
    by (simp add: ex_gemini_def ex_finbert_def)
  have a2: "table_divisor_nonzero ''adaptive'' [ex_gemini, ex_finbert]"
    by (simp add: table_divisor_nonzero_def ex_gemini_def ex_finbert_def)
  show ?thesis
    using weights_normalised [OF n3] weights_normalised [OF n1] weights_normalised [OF n2]
      d3 d3e r1 t1 p2 a2
    by (simp add: strategies_table_def)
qed

text \<open>
  Claim C3 as it is stated fails where a total is zero. A single response of confidence 0
  makes the confidence strategy divide 0 by 0, and the one weight is \<open>NaN\<close>; a single
  response built within the same millisecond (processing time 0) makes \<open>fastResponse\<close>
  divide infinity by infinity. Neither vector sums to 1.
\<close>

theorem weights_division_by_zero:
  "calculateModelWeights [ex_zero_confidence] ''confidence'' = [NaN]
   \<and> \<not> sums_to_one (calculateModelWeights [ex_zero_confidence] ''confidence'')
   \<and> fastResponse_weightingFunction [ex_technical] = [NaN]
   \<and> \<not> sums_to_one (fastResponse_weightingFunction [ex_technical])"
  by (simp add: calculateModelWeights.simps fastResponse_weightingFunction_def sums_to_one_def
        nsum_def ex_zero_confidence_def ex_technical_def)

text \<open>
  Claim C10. In the engine the strategy \<open>"performance"\<close> returns the weight vector of the
  strategy \<open>"confidence"\<close>, for every list of responses. The table's performance weighting,
  which looks a score up by the name of the source, is another function: on a Gemini
  answer of confidence 0.85 and a FinBERT answer of confidence 0.75 the two differ.
\<close>

theorem engine_performance_is_confidence:
  "calculateModelWeights responses ''performance'' = calculateModelWeights responses ''confidence''
   \<and> calculateModelWeights responses ''performance'' = confidence_weightingFunction responses
   \<and> calculateModelWeights [ex_gemini, ex_finbert] ''performance'' = [Fin (17 / 32), Fin (15 / 32)]
   \<and> performance_weightingFunction [ex_gemini, ex_finbert] = [Fin (85 / 163), Fin (78 / 163)]"
proof -
  have a: "calculateModelWeights responses ''performance''
           = calculateModelWeights responses ''confidence''"
    by (subst calculateModelWeights.simps) simp
  have b: "calculateModelWeights rs ''confidence'' = confidence_weightingFunction rs" for rs
    by (simp add: calculateModelWeights.simps confidence_weightingFunction_def)
  have c: "confidence_weightingFunction [ex_gemini, ex_finbert] = [Fin (17 / 32), Fin (15 / 32)]"
    by (simp add: confidence_weightingFunction_def ex_gemini_def ex_finbert_def)
  have d: "performance_weightingFunction [ex_gemini, ex_finbert] = [Fin (85 / 163), Fin (78 / 163)]"
    by (simp add: performance_weightingFunction_def performanceScore_def
          ex_gemini_def ex_finbert_def)
  have e: "calculateModelWeights [ex_gemini, ex_finbert] ''performance''
           = calculateModelWeights [ex_gemini, ex_finbert] ''confidence''"
    by (subst calculateModelWeights.simps) simp
  show ?thesis using a b c d e by simp
qed

section \<open>The orchestrator\<close>

lemma collect_step:
  "foldl (\<lambda>(modelResponses, hasValidResponse) result.
              case result of
                Inr v \<Rightarrow> (modelResponses @ [v], True)
              | Inl reason \<Rightarrow> (modelResponses, hasValidResponse))
           (acc, b) results
   = (acc @ fulfilled results, b \<or> fulfilled results \<noteq> [])"
proof (induction results arbitrary: acc b)
  case Nil
  then show ?case by simp
next
  case (Cons x xs)
  then show ?case by (cases x) simp_all
qed

lemma collect_fulfilled: "collect results = (fulfilled results, fulfilled results \<noteq> [])"
  using collect_step [of "[]" False results] by (simp add: collect_def)

lemma fulfilled_all_rejected: "\<forall>p\<in>set results. isl p \<Longrightarrow> fulfilled results = []"
proof (induction results)
  case Nil
  then show ?case by simp
next
  case (Cons x xs)
  then show ?case by (cases x) simp_all
qed

lemma set_fulfilled: "set (fulfilled results) = {v. Inr v \<in> set results}"
proof (induction results)
  case Nil
  then show ?case by simp
next
  case (Cons x xs)
  then show ?case by (cases x) auto
qed

lemma body_unconfigured:
  "apiKey = None \<or> apiKey = Some [] \<Longrightarrow>
   ensembleBody rt apiKey callGeminiAPI clk an query opts
   = ([], Inl (Error ''HUGGINGFACE_API_KEY is not configured''))"
  by (auto simp: ensembleBody_def)

lemma body_none_fulfilled:
  assumes "apiKey \<noteq> None" "apiKey \<noteq> Some []" "fulfilled (modelPromises opts an) = []"
  shows "ensembleBody rt apiKey callGeminiAPI clk an query opts
   = ([], Inr \<lparr>finalResponse = apology,
               modelContributions = [],
               consensusScore = 0,
               totalProcessingTime = endTime clk - startTime clk,
               methodology = ''No models were able to generate a response''\<rparr>)"
  using assms by (simp add: ensembleBody_def collect_fulfilled Let_def apology_def)

lemma body_some_fulfilled:
  assumes "apiKey \<noteq> None" "apiKey \<noteq> Some []" "fulfilled (modelPromises opts an) \<noteq> []"
  shows "ensembleBody rt apiKey callGeminiAPI clk an query opts
   = (fulfilled (modelPromises opts an),
      Inr \<lparr>finalResponse =
             synthesizeResponses rt callGeminiAPI (fulfilled (modelPromises opts an)) query
               (with_default ''confidence'' (weightingStrategy opts)),
           modelContributions = fulfilled (modelPromises opts an),
           consensusScore = calculateConsensusScore (fulfilled (modelPromises opts an)),
           totalProcessingTime = endTime clk - startTime clk,
           methodology =
             explainMethodology (fulfilled (modelPromises opts an))
               (with_default ''confidence'' (weightingStrategy opts))\<rparr>)"
  using assms by (simp add: ensembleBody_def collect_fulfilled Let_def)

lemma ensemble_unconfigured:
  "apiKey = None \<or> apiKey = Some [] \<Longrightarrow>
   generateEnsembleResponse rt apiKey callGeminiAPI clk an query opts
   = Inr \<lparr>finalResponse = ''Analysis failed: HUGGINGFACE_API_KEY is not configured. Please try again.'',
          modelContributions = [],
          consensusScore = 0,
          totalProcessingTime = endTime clk - startTime clk,
          methodology = ''Analysis failed due to technical error''\<rparr>"
  by (simp add: generateEnsembleResponse_def body_unconfigured)

lemma ensemble_none_fulfilled:
  assumes "apiKey \<noteq> None" "apiKey \<noteq> Some []" "fulfilled (modelPromises opts an) = []"
  shows "generateEnsembleResponse rt apiKey callGeminiAPI clk an query opts
   = Inr \<lparr>finalResponse = apology,
          modelContributions = [],
          consensusScore = 0,
          totalProcessingTime = endTime clk - startTime clk,
          methodology = ''No models were able to generate a response''\<rparr>"
  by (simp add: generateEnsembleResponse_def body_none_fulfilled [OF assms])

lemma ensemble_some_fulfilled:
  assumes "apiKey \<noteq> None" "apiKey \<noteq> Some []" "fulfilled (modelPromises opts an) \<noteq> []"
  shows "generateEnsembleResponse rt apiKey callGeminiAPI clk an query opts
   = Inr \<lparr>finalResponse =
            synthesizeResponses rt callGeminiAPI (fulfilled (modelPromises opts an)) query
              (with_default ''confidence'' (weightingStrategy opts)),
          modelContributions = fulfilled (modelPromises opts an),
          consensusScore = calculateConsensusScore (fulfilled (modelPromises opts an)),
          totalProcessingTime = endTime clk - startTime clk,
          methodology =
            explainMethodology (fulfilled (modelPromises opts an))
              (with_default ''confidence'' (weightingStrategy opts))\<rparr>"
  by (simp add: generateEnsembleResponse_def body_some_fulfilled [OF assms])

lemma consensus_variance:
  assumes "2 \<le> length rs"
  shows "calculateConsensusScore rs = max 0.1 (min 0.95 (1 - variance (map confidence rs)))"
  using assms
  by (simp add: calculateConsensusScore_def Let_def variance_def mean_def foldl_plus_sum_list
        comp_def)

lemma key_configured: "Some ''hf_key'' \<noteq> None" "Some ''hf_key'' \<noteq> Some []"
  by simp_all

lemma promises_all_rejected:
  "modelPromises ex_options ex_all_rejected = replicate 5 (Inl ex_unavailable)"
  by (simp add: modelPromises_def ex_options_def ex_all_rejected_def with_default_def
        numeral_eq_Suc)

lemma promises_partial:
  "fulfilled (modelPromises ex_options ex_partial) = [ex_finbert, ex_cryptobert, ex_technical]"
  by (simp add: modelPromises_def ex_options_def ex_partial_def with_default_def)

lemma promises_only_technical:
  "fulfilled (modelPromises ex_options ex_only_technical) = [ex_technical]"
  by (simp add: modelPromises_def ex_options_def ex_only_technical_def with_default_def)

text \<open>
  Claim C1. When the API key is configured, so that analyzers are dispatched, and every
  dispatched analyzer call rejects, \<open>generateEnsembleResponse\<close> does not reject: it resolves
  to the response with the fixed apology (a non-empty string), no contributions,
  consensus score 0 and the methodology saying that no model responded.
\<close>

theorem all_analyzers_fail:
  assumes "apiKey \<noteq> None" and "apiKey \<noteq> Some []"
    and "\<forall>p\<in>set (modelPromises opts an). isl p"
  shows "generateEnsembleResponse rt apiKey callGeminiAPI clk an query opts
         = Inr \<lparr>finalResponse = apology,
                modelContributions = [],
                consensusScore = 0,
                totalProcessingTime = endTime clk - startTime clk,
                methodology = ''No models were able to generate a response''\<rparr>
         \<and> apology \<noteq> []"
  using ensemble_none_fulfilled [OF assms(1) assms(2) fulfilled_all_rejected [OF assms(3)]]
  by (simp add: apology_def)

text \<open>The theorem at a call with default options whose five analyzer calls all reject.\<close>

theorem all_analyzers_fail_witness:
  "generateEnsembleResponse ex_runtime (Some ''hf_key'') ex_gemini_down ex_clock
     ex_all_rejected ''Is BTC bullish?'' ex_options
   = Inr \<lparr>finalResponse = apology,
          modelContributions = [],
          consensusScore = 0,
          totalProcessingTime = 250,
          methodology = ''No models were able to generate a response''\<rparr>"
proof -
  have h: "\<forall>p\<in>set (modelPromises ex_options ex_all_rejected). isl p"
    by (simp add: promises_all_rejected)
  show ?thesis
    using all_analyzers_fail [OF key_configured h, where rt = ex_runtime
        and callGeminiAPI = ex_gemini_down and clk = ex_clock and query = "''Is BTC bullish?''"]
    by (simp add: ex_clock_def)
qed

text \<open>
  Claim C2. \<open>generateEnsembleResponse\<close> always resolves, and the consensus score of its
  response is: 0 when the API key is not configured (no analyzer runs); otherwise, with
  \<open>rs\<close> the responses of the analyzers that succeeded, 0 when \<open>rs\<close> is empty, exactly 0.5
  when \<open>rs\<close> has one element, and \<open>max(0.1, min(0.95, 1 - variance))\<close> of the confidences,
  which lies in \<open>[0.1, 0.95]\<close>, when \<open>rs\<close> has two or more.
\<close>

theorem consensus_score:
  "\<exists>r. generateEnsembleResponse rt apiKey callGeminiAPI clk an query opts = Inr r
     \<and> (apiKey = None \<or> apiKey = Some [] \<longrightarrow> consensusScore r = 0)
     \<and> (apiKey \<noteq> None \<and> apiKey \<noteq> Some [] \<longrightarrow>
          (let rs = fulfilled (modelPromises opts an)
           in consensusScore r = (if rs = [] then 0 else calculateConsensusScore rs)
              \<and> (length rs = 0 \<longrightarrow> consensusScore r = 0)
              \<and> (length rs = 1 \<longrightarrow> consensusScore r = 0.5)
              \<and> (2 \<le> length rs \<longrightarrow>
                    consensusScore r = max 0.1 (min 0.95 (1 - variance (map confidence rs)))
                    \<and> 0.1 \<le> consensusScore r \<and> consensusScore r \<le> 0.95)))"
proof (cases "apiKey = None \<or> apiKey = Some []")
  case True
  then show ?thesis using ensemble_unconfigured [OF True] by auto
next
  case False
  then have k: "apiKey \<noteq> None" "apiKey \<noteq> Some []" by auto
  show ?thesis
  proof (cases "fulfilled (modelPromises opts an) = []")
    case True
    show ?thesis using ensemble_none_fulfilled [OF k True] True k by simp
  next
    case ne: False
    have one: "length (fulfilled (modelPromises opts an)) = 1 \<Longrightarrow>
        calculateConsensusScore (fulfilled (modelPromises opts an)) = 0.5"
      by (simp add: calculateConsensusScore_def)
    have two: "2 \<le> length (fulfilled (modelPromises opts an)) \<Longrightarrow>
        calculateConsensusScore (fulfilled (modelPromises opts an))
        = max 0.1 (min 0.95 (1 - variance (map confidence (fulfilled (modelPromises opts an)))))"
      by (rule consensus_variance)
    have rng: "(0.1::real) \<le> max 0.1 (min 0.95 x) \<and> max 0.1 (min 0.95 x) \<le> (0.95::real)" for x
      by (simp add: max_def min_def)
    define rs where "rs = fulfilled (modelPromises opts an)"
    have "(let rs = fulfilled (modelPromises opts an)
           in calculateConsensusScore rs = (if rs = [] then 0 else calculateConsensusScore rs)
              \<and> (length rs = 0 \<longrightarrow> calculateConsensusScore rs = 0)
              \<and> (length rs = 1 \<longrightarrow> calculateConsensusScore rs = 0.5)
              \<and> (2 \<le> length rs \<longrightarrow>
                    calculateConsensusScore rs = max 0.1 (min 0.95 (1 - variance (map confidence rs)))
                    \<and> 0.1 \<le> calculateConsensusScore rs \<and> calculateConsensusScore rs \<le> 0.95))"
      unfolding Let_def rs_def [symmetric]
      using ne one two rng [of "1 - variance (map confidence rs)"]
      by (simp add: rs_def [symmetric])
    then show ?thesis
      using ensemble_some_fulfilled [OF k ne, of rt callGeminiAPI clk query] k by auto
  qed
qed

text \<open>
  The theorem at four calls: three analyzers succeed with confidences 0.75, 0.9 and 0.3
  (variance 0.065); only one succeeds; none succeeds; the key is missing.
\<close>

theorem consensus_score_witness:
  "consensusScore (projr (generateEnsembleResponse ex_runtime (Some ''hf_key'') ex_gemini_up
      ex_clock ex_partial ''Is BTC bullish?'' ex_options)) = 0.935
   \<and> consensusScore (projr (generateEnsembleResponse ex_runtime (Some ''hf_key'') ex_gemini_up
      ex_clock ex_only_technical ''Is BTC bullish?'' ex_options)) = 0.5
   \<and> consensusScore (projr (generateEnsembleResponse ex_runtime (Some ''hf_key'') ex_gemini_up
      ex_clock ex_all_rejected ''Is BTC bullish?'' ex_options)) = 0
   \<and> consensusScore (projr (generateEnsembleResponse ex_runtime None ex_gemini_up
      ex_clock ex_partial ''Is BTC bullish?'' ex_options)) = 0"
proof -
  have v: "max 0.1 (min 0.95 (1 - variance (map confidence [ex_finbert, ex_cryptobert, ex_technical])))
           = (0.935 :: real)"
    by (simp add: variance_def mean_def ex_finbert_def ex_cryptobert_def ex_technical_def
          power2_eq_square)
  have a: "consensusScore (projr (generateEnsembleResponse ex_runtime (Some ''hf_key'') ex_gemini_up
      ex_clock ex_partial ''Is BTC bullish?'' ex_options)) = 0.935"
    using consensus_score [of ex_runtime "Some ''hf_key''" ex_gemini_up ex_clock ex_partial
        "''Is BTC bullish?''" ex_options] v
    by (auto simp: promises_partial Let_def)
  have b: "consensusScore (projr (generateEnsembleResponse ex_runtime (Some ''hf_key'') ex_gemini_up
      ex_clock ex_only_technical ''Is BTC bullish?'' ex_options)) = 0.5"
    using consensus_score [of ex_runtime "Some ''hf_key''" ex_gemini_up ex_clock ex_only_technical
        "''Is BTC bullish?''" ex_options]
    by (auto simp: promises_only_technical Let_def)
  have c: "consensusScore (projr (generateEnsembleResponse ex_runtime (Some ''hf_key'') ex_gemini_up
      ex_clock ex_all_rejected ''Is BTC bullish?'' ex_options)) = 0"
    using consensus_score [of ex_runtime "Some ''hf_key''" ex_gemini_up ex_clock ex_all_rejected
        "''Is BTC bullish?''" ex_options]
    by (auto simp: promises_all_rejected Let_def numeral_eq_Suc)
  have d: "consensusScore (projr (generateEnsembleResponse ex_runtime None ex_gemini_up
      ex_clock ex_partial ''Is BTC bullish?'' ex_options)) = 0"
    using consensus_score [of ex_runtime None ex_gemini_up ex_clock ex_partial
        "''Is BTC bullish?''" ex_options]
    by auto
  show ?thesis using a b c d by simp
qed

text \<open>
  Claim C4. When the API key is configured, the contributions of the response are exactly
  the responses of the analyzer calls that were fulfilled, in the order of dispatch: each
  fulfilled call contributes its response whatever its siblings did, and a rejected call
  contributes nothing.
\<close>

theorem contributions_exact:
  assumes "apiKey \<noteq> None" and "apiKey \<noteq> Some []"
  shows "\<exists>r. generateEnsembleResponse rt apiKey callGeminiAPI clk an query opts = Inr r
     \<and> modelContributions r = fulfilled (modelPromises opts an)
     \<and> set (modelContributions r) = {v. Inr v \<in> set (modelPromises opts an)}"
proof (cases "fulfilled (modelPromises opts an) = []")
  case True
  show ?thesis
    using ensemble_none_fulfilled [OF assms True] True set_fulfilled [of "modelPromises opts an"]
    by simp
next
  case False
  show ?thesis
    using ensemble_some_fulfilled [OF assms False] set_fulfilled [of "modelPromises opts an"]
    by simp
qed

text \<open>
  The theorem at a call where the Gemini and the news analyzers reject and the other three
  are fulfilled.
\<close>

theorem contributions_exact_witness:
  "modelContributions (projr (generateEnsembleResponse ex_runtime (Some ''hf_key'') ex_gemini_up
      ex_clock ex_partial ''Is BTC bullish?'' ex_options))
   = [ex_finbert, ex_cryptobert, ex_technical]"
  using contributions_exact [OF key_configured, where rt = ex_runtime
      and callGeminiAPI = ex_gemini_up and clk = ex_clock and an = ex_partial
      and query = "''Is BTC bullish?''" and opts = ex_options]
  by (auto simp: promises_partial)

text \<open>
  Claim C5, as the code has it. \<open>generateEnsembleResponse\<close> never rejects. When the API key
  is not configured, the configuration error thrown in its \<open>try\<close> block is caught by its own
  \<open>catch\<close> block, and the call resolves to a response whose text reports the error, with
  no contributions, consensus score 0 and the methodology of a technical error.
\<close>

theorem never_rejects:
  "(\<exists>r. generateEnsembleResponse rt apiKey callGeminiAPI clk an query opts = Inr r)
   \<and> (apiKey = None \<or> apiKey = Some [] \<longrightarrow>
        generateEnsembleResponse rt apiKey callGeminiAPI clk an query opts
        = Inr \<lparr>finalResponse = ''Analysis failed: HUGGINGFACE_API_KEY is not configured. Please try again.'',
               modelContributions = [],
               consensusScore = 0,
               totalProcessingTime = endTime clk - startTime clk,
               methodology = ''Analysis failed due to technical error''\<rparr>)"
  using ensemble_unconfigured [of apiKey rt callGeminiAPI clk an query opts]
    ensemble_none_fulfilled [of apiKey opts an rt callGeminiAPI clk query]
    ensemble_some_fulfilled [of apiKey opts an rt callGeminiAPI clk query]
  by (cases "apiKey = None \<or> apiKey = Some []"; cases "fulfilled (modelPromises opts an) = []") auto

text \<open>The theorem at a call of a service built with an empty key.\<close>

theorem never_rejects_witness:
  "generateEnsembleResponse ex_runtime (Some []) ex_gemini_up ex_clock ex_partial
      ''Is BTC bullish?'' ex_options
   = Inr \<lparr>finalResponse = ''Analysis failed: HUGGINGFACE_API_KEY is not configured. Please try again.'',
          modelContributions = [],
          consensusScore = 0,
          totalProcessingTime = 250,
          methodology = ''Analysis failed due to technical error''\<rparr>"
  using never_rejects [of ex_runtime "Some []" ex_gemini_up ex_clock ex_partial
      "''Is BTC bullish?''" ex_options]
  by (simp add: ex_clock_def)

text \<open>
  Claim C5 as it is stated fails: with no API key the call is not rejected with a
  configuration error, it resolves to an ordinary response.
\<close>

theorem missing_key_resolves:
  "generateEnsembleResponse ex_runtime None ex_gemini_up ex_clock ex_partial
      ''Is BTC bullish?'' ex_options
   = Inr \<lparr>finalResponse = ''Analysis failed: HUGGINGFACE_API_KEY is not configured. Please try again.'',
          modelContributions = [],
          consensusScore = 0,
          totalProcessingTime = 250,
          methodology = ''Analysis failed due to technical error''\<rparr>
   \<and> \<not> isl (generateEnsembleResponse ex_runtime None ex_gemini_up ex_clock ex_partial
      ''Is BTC bullish?'' ex_options)"
  by (simp add: generateEnsembleResponse_def ensembleBody_def ex_clock_def)

section \<open>The fallback synthesis\<close>

lemma str_includes_append: "str_includes (p @ w @ q) w"
proof (induction p)
  case Nil
  show ?case
  proof (cases "w @ q")
    case Nil
    then show ?thesis by simp
  next
    case (Cons a list)
    have "prefix w (w @ q)" by simp
    then show ?thesis using Cons by simp
  qed
next
  case (Cons a p)
  then show ?case by simp
qed

text \<open>\<open>str_includes\<close> is the contiguous-sublist relation of the library.\<close>

lemma str_includes_sublist: "str_includes s w = sublist w s"
proof (induction s)
  case Nil
  then show ?case by auto
next
  case (Cons c cs)
  then show ?case by (simp add: sublist_Cons_right)
qed

lemma join_contains: "x \<in> set xs \<Longrightarrow> \<exists>p q. join sep xs = p @ x @ q"
proof (induction sep xs rule: join.induct)
  case (1 sep)
  then show ?case by simp
next
  case (2 sep y)
  then have "join sep [y] = [] @ x @ []" by simp
  then show ?case by blast
next
  case (3 sep y z zs)
  show ?case
  proof (cases "x = y")
    case True
    then have "join sep (y # z # zs) = [] @ x @ (sep @ join sep (z # zs))" by simp
    then show ?thesis by blast
  next
    case False
    then have "x \<in> set (z # zs)" using 3 by auto
    then obtain p q where "join sep (z # zs) = p @ x @ q" using 3 by blast
    then have "join sep (y # z # zs) = (y @ sep @ p) @ x @ q" by simp
    then show ?thesis by blast
  qed
qed

lemma foldl_append_concat:
  "foldl (\<lambda>synthesis r. synthesis @ g r) init xs = init @ concat (map g xs)"
  by (induction xs arbitrary: init) simp_all

lemma fallback_shape:
  assumes "primaryResponse rs = Some p"
  shows "\<exists>mid. fallbackSynthesis rt rs q
           = primaryHeader p @ mid @ ''Models consulted: '' @ join '', '' (map source rs) @ closingLine"
proof (cases "1 < length rs")
  case True
  then show ?thesis using assms
    by (simp add: fallbackSynthesis_def Let_def primaryHeader_def closingLine_def
          foldl_append_concat)
next
  case False
  then show ?thesis using assms
    by (simp add: fallbackSynthesis_def Let_def primaryHeader_def closingLine_def)
qed

lemma primary_char:
  assumes "rs \<noteq> []"
  shows "\<exists>p. primaryResponse rs = Some p \<and> p \<in> set rs
           \<and> ((0.7 < confidence p
                 \<and> (\<exists>before after. rs = before @ p # after
                        \<and> (\<forall>x\<in>set before. confidence x \<le> 0.7)))
              \<or> ((\<forall>x\<in>set rs. confidence x \<le> 0.7) \<and> p = hd rs))"
proof -
  obtain r0 rest where rs: "rs = r0 # rest" using assms by (cases rs) auto
  show ?thesis
  proof (cases "filter (\<lambda>r. 0.7 < confidence r) rs")
    case Nil
    then have "\<forall>x\<in>set rs. confidence x \<le> 0.7"
      by (auto simp: filter_empty_conv not_less)
    moreover have "primaryResponse rs = Some r0" using Nil rs by simp
    ultimately show ?thesis using rs by auto
  next
    case (Cons p ps)
    then obtain us vs where "rs = us @ p # vs" "\<forall>u\<in>set us. \<not> 0.7 < confidence u"
        "0.7 < confidence p"
      by (auto simp: filter_eq_Cons_iff)
    moreover have "primaryResponse rs = Some p" using Cons rs by simp
    ultimately show ?thesis by (auto simp: not_less)
  qed
qed

lemma synthesize_fallback:
  assumes "rs \<noteq> []" and "\<forall>prompt. isl (callGeminiAPI prompt)"
  shows "synthesizeResponses rt callGeminiAPI rs q s = fallbackSynthesis rt rs q"
proof -
  have "isl (callGeminiAPI (synthesisPrompt rt rs (calculateModelWeights rs s) q))"
    using assms(2) by blast
  then show ?thesis using assms(1)
    by (auto simp: synthesizeResponses_def Let_def split: sum.splits)
qed

lemma primary_partial:
  "primaryResponse [ex_finbert, ex_cryptobert, ex_technical] = Some ex_finbert"
  by (simp add: ex_finbert_def ex_cryptobert_def ex_technical_def)

lemma gemini_down: "\<forall>prompt. isl (ex_gemini_down prompt)"
  by (simp add: ex_gemini_down_def)

text \<open>
  Claim C6, as the code has it. When at least one analyzer succeeded and the synthesis call
  rejects, the final response is the fallback synthesis of the contributions. It is not
  empty; it opens with the primary section, whose response is the first contribution with
  confidence above 0.7, or the first contribution when none is above 0.7; and it contains
  the source name of every contribution, so that of the most confident one too.
\<close>

theorem synthesis_failure_fallback:
  assumes "apiKey \<noteq> None" and "apiKey \<noteq> Some []"
    and "fulfilled (modelPromises opts an) \<noteq> []"
    and "\<forall>prompt. isl (callGeminiAPI prompt)"
  shows "\<exists>r p. generateEnsembleResponse rt apiKey callGeminiAPI clk an query opts = Inr r
           \<and> modelContributions r = fulfilled (modelPromises opts an)
           \<and> finalResponse r = fallbackSynthesis rt (modelContributions r) query
           \<and> finalResponse r \<noteq> []
           \<and> primaryResponse (modelContributions r) = Some p
           \<and> p \<in> set (modelContributions r)
           \<and> ((0.7 < confidence p
                 \<and> (\<exists>before after. modelContributions r = before @ p # after
                        \<and> (\<forall>x\<in>set before. confidence x \<le> 0.7)))
              \<or> ((\<forall>x\<in>set (modelContributions r). confidence x \<le> 0.7)
                  \<and> p = hd (modelContributions r)))
           \<and> prefix (primaryHeader p) (finalResponse r)
           \<and> (\<forall>m\<in>set (modelContributions r). str_includes (finalResponse r) (source m))"
proof -
  define rs where "rs = fulfilled (modelPromises opts an)"
  have ne: "rs \<noteq> []" using assms(3) by (simp add: rs_def)
  define r where "r = \<lparr>finalResponse = synthesizeResponses rt callGeminiAPI rs query
                        (with_default ''confidence'' (weightingStrategy opts)),
           modelContributions = rs,
           consensusScore = calculateConsensusScore rs,
           totalProcessingTime = endTime clk - startTime clk,
           methodology = explainMethodology rs
                        (with_default ''confidence'' (weightingStrategy opts))\<rparr>"
  have gen: "generateEnsembleResponse rt apiKey callGeminiAPI clk an query opts = Inr r"
    using ensemble_some_fulfilled [OF assms(1) assms(2) assms(3)] by (simp add: r_def rs_def)
  have mc: "modelContributions r = rs" by (simp add: r_def)
  have fr: "finalResponse r = fallbackSynthesis rt rs query"
    using synthesize_fallback [OF ne assms(4)] by (simp add: r_def)
  obtain p where p: "primaryResponse rs = Some p" "p \<in> set rs"
     "(0.7 < confidence p
                 \<and> (\<exists>before after. rs = before @ p # after
                        \<and> (\<forall>x\<in>set before. confidence x \<le> 0.7)))
              \<or> ((\<forall>x\<in>set rs. confidence x \<le> 0.7) \<and> p = hd rs)"
    using primary_char [OF ne] by blast
  obtain mid where shape: "fallbackSynthesis rt rs query
           = primaryHeader p @ mid @ ''Models consulted: '' @ join '', '' (map source rs) @ closingLine"
    using fallback_shape [OF p(1)] by blast
  have nonempty: "finalResponse r \<noteq> []"
    using fr shape by (simp add: primaryHeader_def)
  have pre: "prefix (primaryHeader p) (finalResponse r)"
    using fr shape by simp
  have inc: "str_includes (finalResponse r) (source m)" if "m \<in> set rs" for m
  proof -
    have "source m \<in> set (map source rs)" using that by simp
    then obtain a b where "join '', '' (map source rs) = a @ source m @ b"
      using join_contains by blast
    then have "finalResponse r
        = (primaryHeader p @ mid @ ''Models consulted: '' @ a) @ source m @ (b @ closingLine)"
      using fr shape by simp
    then show ?thesis using str_includes_append by metis
  qed
  show ?thesis
    using gen mc fr nonempty p pre inc rs_def by (intro exI [of _ r] exI [of _ p]) simp
qed

text \<open>
  The theorem at a call where FinBERT (0.75), CryptoBERT (0.9) and the technical analyzer
  (0.3) succeed and the synthesis call rejects: the final response is not empty, is the
  fallback synthesis, and contains the name of the most confident source.
\<close>

theorem synthesis_failure_fallback_witness:
  "finalResponse (projr (generateEnsembleResponse ex_runtime (Some ''hf_key'') ex_gemini_down
      ex_clock ex_partial ''Is BTC bullish?'' ex_options))
     = fallbackSynthesis ex_runtime [ex_finbert, ex_cryptobert, ex_technical] ''Is BTC bullish?''
   \<and> finalResponse (projr (generateEnsembleResponse ex_runtime (Some ''hf_key'') ex_gemini_down
      ex_clock ex_partial ''Is BTC bullish?'' ex_options)) \<noteq> []
   \<and> str_includes (finalResponse (projr (generateEnsembleResponse ex_runtime (Some ''hf_key'')
      ex_gemini_down ex_clock ex_partial ''Is BTC bullish?'' ex_options))) ''CryptoBERT''"
proof -
  have f: "fulfilled (modelPromises ex_options ex_partial) \<noteq> []"
    by (simp add: promises_partial)
  obtain r p where r: "generateEnsembleResponse ex_runtime (Some ''hf_key'') ex_gemini_down
        ex_clock ex_partial ''Is BTC bullish?'' ex_options = Inr r"
      and mc: "modelContributions r = fulfilled (modelPromises ex_options ex_partial)"
      and fr: "finalResponse r = fallbackSynthesis ex_runtime (modelContributions r) ''Is BTC bullish?''"
      and ne: "finalResponse r \<noteq> []"
      and inc: "\<forall>m\<in>set (modelContributions r). str_includes (finalResponse r) (source m)"
    using synthesis_failure_fallback [OF key_configured f gemini_down, where rt = ex_runtime
        and clk = ex_clock and query = "''Is BTC bullish?''"]
    by blast
  have "str_includes (finalResponse r) (source ex_cryptobert)"
    using inc mc by (simp add: promises_partial)
  then have "str_includes (finalResponse r) ''CryptoBERT''"
    by (simp add: ex_cryptobert_def)
  then show ?thesis using r mc fr ne by (simp add: promises_partial)
qed

text \<open>
  Claim C6 as it is stated fails: the primary section is not always the most confident
  response. Here the fallback synthesis presents FinBERT (0.75), the first contribution
  above 0.7, although CryptoBERT (0.9) also contributed.
\<close>

theorem primary_not_most_confident:
  "finalResponse (projr (generateEnsembleResponse ex_runtime (Some ''hf_key'') ex_gemini_down
      ex_clock ex_partial ''Is BTC bullish?'' ex_options))
     = fallbackSynthesis ex_runtime [ex_finbert, ex_cryptobert, ex_technical] ''Is BTC bullish?''
   \<and> modelContributions (projr (generateEnsembleResponse ex_runtime (Some ''hf_key'') ex_gemini_down
      ex_clock ex_partial ''Is BTC bullish?'' ex_options))
     = [ex_finbert, ex_cryptobert, ex_technical]
   \<and> primaryResponse [ex_finbert, ex_cryptobert, ex_technical] = Some ex_finbert
   \<and> prefix (''Based on multi-model AI analysis:'' @ nl @ nl @ ''Primary Analysis (FinBERT):'')
        (fallbackSynthesis ex_runtime [ex_finbert, ex_cryptobert, ex_technical] ''Is BTC bullish?'')
   \<and> confidence ex_finbert < confidence ex_cryptobert"
proof -
  have f: "fulfilled (modelPromises ex_options ex_partial) \<noteq> []"
    by (simp add: promises_partial)
  have ne: "[ex_finbert, ex_cryptobert, ex_technical] \<noteq> []" by simp
  have a: "generateEnsembleResponse ex_runtime (Some ''hf_key'') ex_gemini_down
      ex_clock ex_partial ''Is BTC bullish?'' ex_options
      = Inr \<lparr>finalResponse =
            fallbackSynthesis ex_runtime [ex_finbert, ex_cryptobert, ex_technical] ''Is BTC bullish?'',
          modelContributions = [ex_finbert, ex_cryptobert, ex_technical],
          consensusScore = calculateConsensusScore [ex_finbert, ex_cryptobert, ex_technical],
          totalProcessingTime = endTime ex_clock - startTime ex_clock,
          methodology =
            explainMethodology [ex_finbert, ex_cryptobert, ex_technical]
              (with_default ''confidence'' (weightingStrategy ex_options))\<rparr>"
    using ensemble_some_fulfilled [OF key_configured f, where rt = ex_runtime
        and callGeminiAPI = ex_gemini_down and clk = ex_clock and query = "''Is BTC bullish?''"]
      synthesize_fallback [OF ne gemini_down]
    by (simp add: promises_partial)
  obtain mid where shape:
    "fallbackSynthesis ex_runtime [ex_finbert, ex_cryptobert, ex_technical] ''Is BTC bullish?''
       = primaryHeader ex_finbert @ mid @ ''Models consulted: ''
           @ join '', '' (map source [ex_finbert, ex_cryptobert, ex_technical]) @ closingLine"
    using fallback_shape [OF primary_partial] by blast
  have h: "primaryHeader ex_finbert
           = (''Based on multi-model AI analysis:'' @ nl @ nl @ ''Primary Analysis (FinBERT):'') @ nl"
    by (simp add: primaryHeader_def ex_finbert_def)
  have pre: "prefix (''Based on multi-model AI analysis:'' @ nl @ nl @ ''Primary Analysis (FinBERT):'')
        (fallbackSynthesis ex_runtime [ex_finbert, ex_cryptobert, ex_technical] ''Is BTC bullish?'')"
    unfolding shape h by (simp only: append_assoc prefix_append) simp
  have c: "confidence ex_finbert < confidence ex_cryptobert"
    by (simp add: ex_finbert_def ex_cryptobert_def)
  show ?thesis using a primary_partial pre c by simp
qed

section \<open>The local fallbacks\<close>

lemma lower_moon:
  "toLowerCase ''to the moon, hodl strong'' = ''to the moon, hodl strong''"
  by (simp add: toLowerCase_def lowerChar_def)

lemma positive_moon:
  "filter (\<lambda>word. str_includes ''to the moon, hodl strong'' word) cryptoPositive
   = [''moon'', ''hodl'']"
  by (simp add: cryptoPositive_def)

lemma negative_moon:
  "filter (\<lambda>word. str_includes ''to the moon, hodl strong'' word) cryptoNegative = []"
  by (simp add: cryptoNegative_def)

text \<open>
  Claim C7. On the query \<open>to the moon, hodl strong\<close> the keyword fallback counts 2 positive
  and 0 negative words and returns the sentiment \<open>positive\<close> with confidence 0.7, which is
  above 0.5 and at most 0.8; and on every query its confidence is at most 0.8 (and at
  least 0.5).
\<close>

theorem crypto_keyword_fallback:
  "getCryptoKeywordAnalysis ''to the moon, hodl strong'' context t0 t1
     = \<lparr>source = ''Crypto-Keywords'',
        confidence = 0.7,
        data = [(''sentiment'', JStr ''positive''),
                (''positiveMatches'', JNum 2),
                (''negativeMatches'', JNum 0),
                (''type'', JStr ''crypto_keyword_analysis'')],
        processingTime = t1 - t0\<rparr>
   \<and> 0.5 < confidence (getCryptoKeywordAnalysis ''to the moon, hodl strong'' context t0 t1)
   \<and> confidence (getCryptoKeywordAnalysis ''to the moon, hodl strong'' context t0 t1) \<le> 0.8
   \<and> confidence (getCryptoKeywordAnalysis query context t0 t1) \<le> 0.8
   \<and> 0.5 \<le> confidence (getCryptoKeywordAnalysis query context t0 t1)"
proof -
  have a: "getCryptoKeywordAnalysis ''to the moon, hodl strong'' context t0 t1
     = \<lparr>source = ''Crypto-Keywords'',
        confidence = 0.7,
        data = [(''sentiment'', JStr ''positive''),
                (''positiveMatches'', JNum 2),
                (''negativeMatches'', JNum 0),
                (''type'', JStr ''crypto_keyword_analysis'')],
        processingTime = t1 - t0\<rparr>"
    by (simp add: getCryptoKeywordAnalysis_def Let_def lower_moon positive_moon negative_moon)
  have b: "confidence (getCryptoKeywordAnalysis query context t0 t1) \<le> 0.8
     \<and> 0.5 \<le> confidence (getCryptoKeywordAnalysis query context t0 t1)"
    by (simp add: getCryptoKeywordAnalysis_def Let_def min_def)
  show ?thesis using b unfolding a by simp
qed

text \<open>
  Claim C8. In the rule-based fallback a 24h change of 7.5 gives the line of strong
  bullish momentum and a change of -1 the line of sideways price action; the sideways line
  is given exactly when the change (0 when absent) lies between -2 and 2, both included;
  and the confidence of the response is 0.6 in every case.
\<close>

theorem rule_based_technical:
  "(priceChange24h d = Some 7.5 \<longrightarrow>
      analysisText (getRuleBasedTechnicalAnalysis d query t0 t1)
      = Some (JStr (technicalHeader d @ ''- Strong bullish momentum detected'' @ nl @ volumeLine d)))
   \<and> (priceChange24h d = Some (- 1) \<longrightarrow>
      analysisText (getRuleBasedTechnicalAnalysis d query t0 t1)
      = Some (JStr (technicalHeader d @ ''- Sideways price action'' @ nl @ volumeLine d)))
   \<and> (analysisText (getRuleBasedTechnicalAnalysis d query t0 t1)
        = Some (JStr (technicalHeader d @ ''- Sideways price action'' @ nl @ volumeLine d))
      \<longleftrightarrow> - 2 \<le> number_or (priceChange24h d) 0 \<and> number_or (priceChange24h d) 0 \<le> 2)
   \<and> confidence (getRuleBasedTechnicalAnalysis d query t0 t1) = 0.6"
  by (simp add: getRuleBasedTechnicalAnalysis_def analysisText_def getProp_def Let_def
        technicalHeader_def volumeLine_def number_or_def nl_def)

text \<open>
  The theorem at an asset that gained 7.5% on high volume and at an unnamed asset that
  lost 1%.
\<close>

theorem rule_based_technical_witness:
  "analysisText (getRuleBasedTechnicalAnalysis ex_coin_up ''Is BTC bullish?'' 1000 1004)
     = Some (JStr (''Technical Analysis for Bitcoin:'' @ nl
                   @ ''- Strong bullish momentum detected'' @ nl
                   @ ''- High trading volume indicates strong interest'' @ nl))
   \<and> analysisText (getRuleBasedTechnicalAnalysis ex_coin_flat ''Is BTC bullish?'' 1000 1004)
     = Some (JStr (''Technical Analysis for Asset:'' @ nl
                   @ ''- Sideways price action'' @ nl
                   @ ''- Normal trading volume'' @ nl))
   \<and> confidence (getRuleBasedTechnicalAnalysis ex_coin_up ''Is BTC bullish?'' 1000 1004) = 0.6"
  using rule_based_technical [of ex_coin_up "''Is BTC bullish?''" 1000 1004]
    rule_based_technical [of ex_coin_flat "''Is BTC bullish?''" 1000 1004]
  by (simp add: ex_coin_up_def ex_coin_flat_def technicalHeader_def volumeLine_def
        string_or_def number_or_def)

section \<open>The optimal configuration\<close>

lemma optimal_shape:
  "enabledModels (getOptimalConfiguration config qa) = filter (modelEnabled config) (selectedModels qa)
   \<and> expectedCost (getOptimalConfiguration config qa)
       = sum_list (map (modelCost config) (selectedModels qa))"
proof -
  have c: "(\<lambda>sum modelKey. sum + (case lookupModel config modelKey of
                              Some model \<Rightarrow> costPerRequest model
                            | None \<Rightarrow> 0)) = (\<lambda>sum modelKey. sum + modelCost config modelKey)"
    by (simp add: modelCost_def)
  have e: "(\<lambda>key. case lookupModel config key of
                             Some model \<Rightarrow> enabled model
                           | None \<Rightarrow> False) = modelEnabled config"
    by (simp add: modelEnabled_def fun_eq_iff)
  show ?thesis
    unfolding getOptimalConfiguration_def c e selectedModels_def foldl_plus_sum_list
    by (cases "isSentimentQuery qa"; cases "isTechnicalQuery qa"; cases "isEducationalQuery qa";
        cases "urgency qa = ''high''"; cases "complexity qa = ''high''")
       (simp_all add: Let_def)
qed

lemma selected_keys:
  "set (selectedModels qa)
   \<subseteq> {''gemini'', ''finbert'', ''cryptobert'', ''newsRoberta'', ''technicalAnalyzer''}"
  unfolding selectedModels_def Let_def
  by (cases "urgency qa = ''high''") (auto dest!: in_set_takeD)

lemma static_enabled:
  "modelEnabled AI_ENSEMBLE_CONFIG ''gemini''"
  "modelEnabled AI_ENSEMBLE_CONFIG ''finbert''"
  "modelEnabled AI_ENSEMBLE_CONFIG ''cryptobert''"
  "modelEnabled AI_ENSEMBLE_CONFIG ''newsRoberta''"
  "modelEnabled AI_ENSEMBLE_CONFIG ''technicalAnalyzer''"
  by (simp_all add: modelEnabled_def lookupModel_def AI_ENSEMBLE_CONFIG_def models_table_def)

lemma static_cost:
  "modelCost AI_ENSEMBLE_CONFIG ''gemini'' = 0.02"
  "modelCost AI_ENSEMBLE_CONFIG ''finbert'' = 0.001"
  "modelCost AI_ENSEMBLE_CONFIG ''cryptobert'' = 0.0015"
  "modelCost AI_ENSEMBLE_CONFIG ''newsRoberta'' = 0.0008"
  "modelCost AI_ENSEMBLE_CONFIG ''technicalAnalyzer'' = 0.0005"
  by (simp_all add: modelCost_def lookupModel_def AI_ENSEMBLE_CONFIG_def models_table_def)

text \<open>In any configuration, every key that is returned is enabled in that configuration.\<close>

lemma returned_models_enabled:
  "\<forall>key\<in>set (enabledModels (getOptimalConfiguration config qa)). modelEnabled config key"
  by (simp add: optimal_shape)

text \<open>
  With the static configuration table, where all five models are enabled, the filter keeps
  every selected key, so the expected cost is the sum of the table's cost per request over
  the entries of the returned list (a key that the rules add twice is in the list twice
  and is counted twice).
\<close>

lemma static_configuration_cost:
  "(\<forall>key\<in>set (enabledModels (getOptimalConfiguration AI_ENSEMBLE_CONFIG qa)).
       modelEnabled AI_ENSEMBLE_CONFIG key)
   \<and> expectedCost (getOptimalConfiguration AI_ENSEMBLE_CONFIG qa)
       = sum_list (map (modelCost AI_ENSEMBLE_CONFIG)
                     (enabledModels (getOptimalConfiguration AI_ENSEMBLE_CONFIG qa)))"
proof -
  have all: "\<forall>key\<in>set (selectedModels qa). modelEnabled AI_ENSEMBLE_CONFIG key"
    using selected_keys [of qa] static_enabled by auto
  then have "filter (modelEnabled AI_ENSEMBLE_CONFIG) (selectedModels qa) = selectedModels qa"
    by simp
  then show ?thesis
    using all optimal_shape [of AI_ENSEMBLE_CONFIG qa] by simp
qed

text \<open>
  A technical sentiment query of high complexity on the static table: six entries, FinBERT
  twice, at a cost of 0.0248.
\<close>

lemma static_configuration_example:
  "enabledModels (getOptimalConfiguration AI_ENSEMBLE_CONFIG ex_query_analysis)
     = [''gemini'', ''finbert'', ''cryptobert'', ''newsRoberta'', ''technicalAnalyzer'', ''finbert'']
   \<and> expectedCost (getOptimalConfiguration AI_ENSEMBLE_CONFIG ex_query_analysis) = 0.0248"
proof -
  have l: "enabledModels (getOptimalConfiguration AI_ENSEMBLE_CONFIG ex_query_analysis)
     = [''gemini'', ''finbert'', ''cryptobert'', ''newsRoberta'', ''technicalAnalyzer'', ''finbert'']"
    by (simp add: optimal_shape selectedModels_def ex_query_analysis_def static_enabled)
  show ?thesis
    using static_configuration_cost [of ex_query_analysis] unfolding l
    by (simp add: static_cost)
qed

lemma finbert_disabled:
  "modelEnabled ex_config_finbert_disabled ''gemini''"
  "\<not> modelEnabled ex_config_finbert_disabled ''finbert''"
  "modelCost ex_config_finbert_disabled ''gemini'' = 0.02"
  "modelCost ex_config_finbert_disabled ''finbert'' = 0.001"
  by (simp_all add: modelEnabled_def modelCost_def lookupModel_def ex_config_finbert_disabled_def
        AI_ENSEMBLE_CONFIG_def models_table_def)

text \<open>
  Claim C9. The returned list holds only keys that are enabled in the configuration, but
  the expected cost is summed over the selected keys before the enabled filter is applied,
  so it is not the sum over the returned list when a selected model is disabled. In the
  static table with FinBERT disabled, an educational query selects Gemini and FinBERT:
  the returned list is Gemini alone, whose cost per request is 0.02, and the expected cost
  is 0.021, the cost of FinBERT included.
\<close>

theorem expected_cost_counts_disabled:
  "enabledModels (getOptimalConfiguration ex_config_finbert_disabled ex_educational_query)
     = [''gemini'']
   \<and> expectedCost (getOptimalConfiguration ex_config_finbert_disabled ex_educational_query)
     = 0.021
   \<and> sum_list (map (modelCost ex_config_finbert_disabled)
        (enabledModels (getOptimalConfiguration ex_config_finbert_disabled ex_educational_query)))
     = 0.02"
proof -
  have sel: "selectedModels ex_educational_query = [''gemini'', ''finbert'']"
    by (simp add: selectedModels_def ex_educational_query_def)
  have l: "enabledModels (getOptimalConfiguration ex_config_finbert_disabled ex_educational_query)
     = [''gemini'']"
    by (simp add: optimal_shape sel finbert_disabled)
  have c: "expectedCost (getOptimalConfiguration ex_config_finbert_disabled ex_educational_query)
     = 0.021"
    by (simp add: optimal_shape sel finbert_disabled)
  show ?thesis unfolding l using c by (simp add: finbert_disabled)
qed

end
